theory Spec2Isabelle
  imports Main "HOL-Library.Word" "HOL-Library.Sublist"
begin

section \<open>check-es-logs-count: a Nagios probe counting Elasticsearch log entries\<close>

text \<open>
  The program is a single Go file, \<open>check-es-logs-count.go\<close>. Its functions are embedded
  below in the order of their dependencies, each next to the library routines it calls:
  \<open>normalizeEsQuery\<close>, \<open>getRenderedTemplate\<close>, \<open>parseResult\<close>, \<open>esQueryPost\<close>,
  \<open>getQueryResultCount\<close> and \<open>main\<close>.

  \<^item> A Go \<open>string\<close> is a sequence of bytes, hence a \<^typ>\<open>string\<close> (a list of 8-bit
    \<^typ>\<open>char\<close>s).
  \<^item> Go's \<open>int\<close> and \<open>int64\<close> are 64-bit two's complement words (a 64-bit platform is
    assumed for \<open>int\<close>): arithmetic wraps around, comparisons read the words as signed
    (\<^const>\<open>sint\<close>).
  \<^item> A Go \<open>error\<close> is its message; a function returning \<open>(T, error)\<close> with the error
    excluding the value returns a sum \<open>error + T\<close>.
  \<^item> The libraries \<open>strings\<close>, \<open>strconv\<close>, \<open>unicode/utf8\<close>, \<open>encoding/json\<close> and the
    date layout of \<open>time\<close> are modelled as functions. What the program takes from
    outside (the clock, the HTTP exchange of \<open>gorequest\<close>, the \<open>text/template\<close> engine,
    the \<open>%.2f\<close> rendering of a \<open>float64\<close>) is a field of the environment \<open>env\<close>, and
    every theorem holds for every environment.
\<close>

type_synonym go_int = "64 word"
type_synonym int64 = "64 word"

datatype error = Error string

fun error_message :: "error \<Rightarrow> string" where
  "error_message (Error m) = m"

subsection \<open>Library: \<open>unicode/utf8\<close>, \<open>strings\<close>, \<open>strconv\<close>\<close>

definition byte_in :: "nat \<Rightarrow> nat \<Rightarrow> char \<Rightarrow> bool" where
  "byte_in lo hi c = (lo \<le> of_char c \<and> (of_char c :: nat) \<le> hi)"

text \<open>
  \<open>utf8_width s\<close> is the width that \<open>utf8.DecodeRuneInString\<close> reports for the first rune
  of \<open>s\<close>: the length of a well-formed encoding, 1 for an ill-formed one, 0 for the empty
  string.
\<close>

fun utf8_width :: "string \<Rightarrow> nat" where
  "utf8_width [] = 0"
| "utf8_width (b0 # rest) =
     (if byte_in 0x00 0x7F b0 then 1
      else if byte_in 0xC2 0xDF b0 then
        (case rest of b1 # _ \<Rightarrow> if byte_in 0x80 0xBF b1 then 2 else 1 | _ \<Rightarrow> 1)
      else if byte_in 0xE0 0xEF b0 then
        (case rest of
           b1 # b2 # _ \<Rightarrow>
             if byte_in (if b0 = CHR 0xE0 then 0xA0 else 0x80)
                        (if b0 = CHR 0xED then 0x9F else 0xBF) b1
                \<and> byte_in 0x80 0xBF b2 then 3 else 1
         | _ \<Rightarrow> 1)
      else if byte_in 0xF0 0xF4 b0 then
        (case rest of
           b1 # b2 # b3 # _ \<Rightarrow>
             if byte_in (if b0 = CHR 0xF0 then 0x90 else 0x80)
                        (if b0 = CHR 0xF4 then 0x8F else 0xBF) b1
                \<and> byte_in 0x80 0xBF b2 \<and> byte_in 0x80 0xBF b3 then 4 else 1
         | _ \<Rightarrow> 1)
      else 1)"

lemma utf8_width_pos: "s \<noteq> [] \<Longrightarrow> 0 < utf8_width s"
  by (cases s) (auto split: list.splits)

lemma utf8_width_drop_less: "Suc (length cs) - utf8_width (c # cs) < Suc (length cs)"
  using utf8_width_pos [of "c # cs"] by (simp del: utf8_width.simps)

function utf8_RuneCountInString :: "string \<Rightarrow> nat" where
  "utf8_RuneCountInString s =
     (if s = [] then 0 else Suc (utf8_RuneCountInString (drop (utf8_width s) s)))"
  by pat_completeness auto
termination
  by (relation "measure length") (auto simp: utf8_width_pos)

declare utf8_RuneCountInString.simps [simp del]

text \<open>\<open>utf8.EncodeRune\<close>: surrogates and values beyond \<open>U+10FFFF\<close> are written as \<open>U+FFFD\<close>.\<close>

definition utf8_EncodeRune :: "nat \<Rightarrow> string" where
  "utf8_EncodeRune r =
     (if r < 0x80 then [char_of r]
      else if r < 0x800 then [char_of (0xC0 + r div 0x40), char_of (0x80 + r mod 0x40)]
      else if 0x10FFFF < r \<or> (0xD800 \<le> r \<and> r \<le> 0xDFFF) then [CHR 0xEF, CHR 0xBF, CHR 0xBD]
      else if r < 0x10000 then
        [char_of (0xE0 + r div 0x1000), char_of (0x80 + r div 0x40 mod 0x40),
         char_of (0x80 + r mod 0x40)]
      else
        [char_of (0xF0 + r div 0x40000), char_of (0x80 + r div 0x1000 mod 0x40),
         char_of (0x80 + r div 0x40 mod 0x40), char_of (0x80 + r mod 0x40)])"

text \<open>
  \<open>strings.Index\<close> (the position of the first occurrence; Go's \<open>-1\<close> is \<open>None\<close>),
  \<open>strings.Count\<close> (the number of non-overlapping occurrences, one more than the number
  of runes for the empty string), and \<open>strings.Replace\<close>, whose loop copies the text up to
  the next occurrence and then \<open>new\<close>, as often as there are occurrences to replace. For an
  empty \<open>old\<close> the occurrences are the positions before each rune and at the end.
\<close>

fun strings_Index :: "string \<Rightarrow> string \<Rightarrow> nat option" where
  "strings_Index [] substr = (if substr = [] then Some 0 else None)"
| "strings_Index (c # cs) substr =
     (if prefix substr (c # cs) then Some 0 else map_option Suc (strings_Index cs substr))"

lemma strings_Index_bound:
  "strings_Index s substr = Some j \<Longrightarrow> j + length substr \<le> length s"
  by (induction s arbitrary: j) (auto split: if_splits dest: prefix_length_le)

function strings_Count :: "string \<Rightarrow> string \<Rightarrow> nat" where
  "strings_Count s substr =
     (if substr = [] then utf8_RuneCountInString s + 1
      else case strings_Index s substr of
             None \<Rightarrow> 0
           | Some i \<Rightarrow> Suc (strings_Count (drop (i + length substr) s) substr))"
  by pat_completeness auto
termination
proof (relation "measure (\<lambda>(s, substr). length s)", goal_cases)
  case 1
  show ?case by simp
next
  case (2 s substr i)
  from strings_Index_bound [OF 2(2)] 2(1) show ?case
    by (cases substr) auto
qed

declare strings_Count.simps [simp del]

fun replace_loop :: "string \<Rightarrow> string \<Rightarrow> nat \<Rightarrow> bool \<Rightarrow> string \<Rightarrow> string" where
  "replace_loop old new 0 first s = s"
| "replace_loop old new (Suc n) first s =
     (let j = (if old = [] then (if first then 0 else utf8_width s)
               else (case strings_Index s old of Some i \<Rightarrow> i | None \<Rightarrow> 0))
      in take j s @ new @ replace_loop old new n False (drop (j + length old) s))"

definition strings_Replace :: "string \<Rightarrow> string \<Rightarrow> string \<Rightarrow> int \<Rightarrow> string" where
  "strings_Replace s old new n =
     (if old = new \<or> n = 0 then s
      else let m = strings_Count s old in
        if m = 0 then s
        else replace_loop old new (if n < 0 \<or> int m < n then m else nat n) True s)"

text \<open>\<open>strings.Join\<close>: the first element, then each further one behind the separator.\<close>

fun strings_Join :: "string list \<Rightarrow> string \<Rightarrow> string" where
  "strings_Join [] sep = []"
| "strings_Join (e # es) sep = e @ concat (map (\<lambda>x. sep @ x) es)"

text \<open>
  Decimal digits of a non-negative integer, \<open>strconv.FormatInt(i, 10)\<close> (which is how
  \<open>%d\<close> and \<open>text/template\<close> print an integer), and \<open>strconv.ParseInt(s, 10, 64)\<close>: an
  optional sign, then digits only, and a value within the range of \<open>int64\<close>.
\<close>

function decimal :: "int \<Rightarrow> string" where
  "decimal n =
     (if n < 10 then [char_of (0x30 + n)]
      else decimal (n div 10) @ [char_of (0x30 + n mod 10)])"
  by pat_completeness auto
termination
  by (relation "measure nat") auto

declare decimal.simps [simp del]

definition strconv_FormatInt :: "int64 \<Rightarrow> string" where
  "strconv_FormatInt i =
     (if sint i < 0 then CHR ''-'' # decimal (- sint i) else decimal (sint i))"

definition isDigit :: "char \<Rightarrow> bool" where
  "isDigit c = byte_in 0x30 0x39 c"

definition digitsValue :: "string \<Rightarrow> int" where
  "digitsValue ds = foldl (\<lambda>n c. n * 10 + (int (of_char c) - 0x30)) 0 ds"

definition strconv_ParseInt :: "string \<Rightarrow> int64 option" where
  "strconv_ParseInt s =
     (let neg = (case s of c # _ \<Rightarrow> c = CHR ''-'' | [] \<Rightarrow> False);
          ds = (case s of c # r \<Rightarrow> if c = CHR ''-'' \<or> c = CHR ''+'' then r else s | [] \<Rightarrow> s)
      in if ds = [] \<or> \<not> list_all isDigit ds then None
         else let v = (if neg then - digitsValue ds else digitsValue ds)
              in if - (2 ^ 63) \<le> v \<and> v < 2 ^ 63 then Some (word_of_int v) else None)"

subsection \<open>\<open>normalizeEsQuery\<close>\<close>

text \<open>
  \<^verbatim>\<open>return strings.Replace(str, `"`, `\"`, -1)\<close>. The double quote is the byte \<open>0x22\<close>, the
  backslash the byte \<open>0x5C\<close>.
\<close>

definition normalizeEsQuery :: "string \<Rightarrow> string" where
  "normalizeEsQuery str = strings_Replace str [CHR 0x22] [CHR 0x5C, CHR 0x22] (- 1)"

text \<open>
  The escaping in the specification's words, to compare the code with: each double quote
  becomes a backslash and a double quote, every other byte is kept.
\<close>

definition escape_quotes :: "string \<Rightarrow> string" where
  "escape_quotes str =
     concat (map (\<lambda>c. if c = CHR 0x22 then [CHR 0x5C, CHR 0x22] else [c]) str)"

subsection \<open>The environment\<close>

text \<open>
  \<open>time.Now().Local()\<close> is read through its civil date only, which is all that the layout
  \<open>"2006.01.02"\<close> prints: \<open>appendInt\<close> writes the year zero-padded to four digits, the
  month and the day to two, with a minus sign in front of a negative number.
\<close>

record Date =
  year :: int
  month :: int
  day :: int

definition appendInt :: "int \<Rightarrow> nat \<Rightarrow> string" where
  "appendInt x width =
     (let ds = decimal \<bar>x\<bar>; padded = replicate (width - length ds) (CHR ''0'') @ ds
      in if x < 0 then CHR ''-'' # padded else padded)"

definition time_Format :: "Date \<Rightarrow> string" where
  "time_Format t =
     appendInt (year t) 4 @ ''.'' @ appendInt (month t) 2 @ ''.'' @ appendInt (day t) 2"

text \<open>
  What \<open>request.Post(url).Send(content).End()\<close> hands back: either a non-nil slice of
  errors (given by their descriptions), or a response with its status code, its status
  line and its body.
\<close>

datatype http_result = TransportErrors "string list" | Response go_int string string

record TemplateESQuery =
  TimeFrom :: int64
  Query :: string

text \<open>
  \<^item> \<open>time_Now_Unix\<close>: \<open>time.Now().Unix()\<close> as \<open>main\<close> reads it;
  \<^item> \<open>time_Now_Local\<close>: the date of \<open>time.Now().Local()\<close> as \<open>getQueryResultCount\<close> reads
    it, just before the request;
  \<^item> \<open>gorequest_Post\<close>: what \<open>request.Post(url).Send(content).End()\<close> answers for a
    URL and a content;
  \<^item> \<open>template_Parse\<close>: \<open>template.New("TemplateESQuery").Parse\<close>, an error or a parsed
    template, which is the function \<open>Execute\<close> computes from the data to an error or the
    rendered text;
  \<^item> \<open>sprintf_percent\<close>: the text that \<open>%.2f\<close> prints for
    \<open>float64(count) / float64(threshold) * 100\<close>.
\<close>

record env =
  time_Now_Unix :: int64
  time_Now_Local :: Date
  gorequest_Post :: "string \<Rightarrow> string \<Rightarrow> http_result"
  template_Parse :: "string \<Rightarrow> error + (TemplateESQuery \<Rightarrow> error + string)"
  sprintf_percent :: "go_int \<Rightarrow> go_int \<Rightarrow> string"

subsection \<open>\<open>getRenderedTemplate\<close>\<close>

text \<open>
  The struct literal \<open>TemplateESQuery{timeFrom * 1000, query}\<close> is positional: the product
  goes to the first field, \<open>TimeFrom\<close>, the query to the second, \<open>Query\<close>. The product is
  an \<open>int64\<close> one. Both a parse error and an execution error are returned as they come.
\<close>

definition getRenderedTemplate :: "env \<Rightarrow> string \<Rightarrow> string \<Rightarrow> int64 \<Rightarrow> error + string" where
  "getRenderedTemplate w tmplSource query timeFrom =
     (let t = \<lparr>TimeFrom = timeFrom * 1000, Query = query\<rparr> in
      case template_Parse w tmplSource of
        Inl err \<Rightarrow> Inl err
      | Inr tmpl \<Rightarrow>
          (case tmpl t of
             Inl err \<Rightarrow> Inl err
           | Inr tpl \<Rightarrow> Inr tpl))"

definition nl :: string where
  "nl = [CHR 0x0A]"

definition tab :: "nat \<Rightarrow> string" where
  "tab n = replicate n (CHR 0x09)"

text \<open>
  The package-level \<open>templateSource\<close>, byte for byte (565 bytes), cut at its two
  actions.
\<close>

definition template_head :: string where
  \<open>template_head = concat
    [nl,
     tab 1 @ ''{'' @ nl,
     tab 2 @ ''"size": 0,'' @ nl,
     tab 2 @ ''"query": {'' @ nl,
     tab 3 @ ''"bool": {'' @ nl,
     tab 4 @ ''"must": ['' @ nl,
     tab 5 @ ''{'' @ nl,
     tab 6 @ ''"query_string": {'' @ nl,
     tab 7 @ ''"analyze_wildcard": true,'' @ nl,
     tab 7 @ ''"query": "'']\<close>

definition template_middle :: string where
  \<open>template_middle = concat
    [''"'' @ nl,
     tab 6 @ ''}'' @ nl,
     tab 5 @ ''},'' @ nl,
     tab 5 @ ''{'' @ nl,
     tab 6 @ ''"range": {'' @ nl,
     tab 7 @ ''"@timestamp": {'' @ nl,
     tab 8 @ ''"lte": "now",'' @ nl,
     tab 8 @ ''"gte": '']\<close>

definition template_tail :: string where
  \<open>template_tail = concat
    ['','' @ nl,
     tab 8 @ ''"format": "epoch_millis"'' @ nl,
     tab 7 @ ''}'' @ nl,
     tab 6 @ ''}'' @ nl,
     tab 5 @ ''}'' @ nl,
     tab 4 @ ''],'' @ nl,
     tab 4 @ ''"must_not": []'' @ nl,
     tab 3 @ ''}'' @ nl,
     tab 2 @ ''},'' @ nl,
     tab 2 @ ''"_source": {'' @ nl,
     tab 3 @ ''"excludes": []'' @ nl,
     tab 2 @ ''},'' @ nl,
     tab 2 @ ''"aggs": {'' @ nl,
     tab 3 @ ''"3": {'' @ nl,
     tab 4 @ ''"date_histogram": {'' @ nl,
     tab 5 @ ''"field": "@timestamp",'' @ nl,
     tab 5 @ ''"interval": "1h",'' @ nl,
     tab 5 @ ''"time_zone": "UTC",'' @ nl,
     tab 5 @ ''"min_doc_count": 1'' @ nl,
     tab 4 @ ''}'' @ nl,
     tab 3 @ ''}'' @ nl,
     tab 2 @ ''}'' @ nl,
     tab 1 @ ''}'' @ nl,
     tab 1]\<close>

definition templateSource :: string where
  "templateSource =
     template_head @ ''{{ .Query }}'' @ template_middle @ ''{{ .TimeFrom }}'' @ template_tail"

subsection \<open>Templates of text and field actions\<close>

text \<open>
  \<open>text/template\<close> on the templates the program is written for: literal text and actions
  \<open>{{ .Field }}\<close>, a dot and an identifier between blanks. \<open>scan_template\<close> cuts the source
  at the delimiters; the flag it returns says whether the last action is closed. An action
  of any other form is outside of this fragment, and \<open>field_template\<close> is \<open>None\<close> on it,
  as on an unclosed action. Executing a field action prints the field of the data: an
  \<open>int64\<close> in decimal, a string as it is; a field that \<open>TemplateESQuery\<close> does not have
  cannot be evaluated.
\<close>

datatype segment = TextSeg string | ActionSeg string

datatype scan_state = InText string | SeenLeft string | InAction string | SeenRight string

fun scan_template :: "scan_state \<Rightarrow> string \<Rightarrow> segment list \<times> bool" where
  "scan_template (InText acc) [] = ([TextSeg acc], True)"
| "scan_template (SeenLeft acc) [] = ([TextSeg (acc @ ''{'')], True)"
| "scan_template (InAction a) [] = ([], False)"
| "scan_template (SeenRight a) [] = ([], False)"
| "scan_template (InText acc) (c # cs) =
     (if c = CHR ''{'' then scan_template (SeenLeft acc) cs
      else scan_template (InText (acc @ [c])) cs)"
| "scan_template (SeenLeft acc) (c # cs) =
     (if c = CHR ''{'' then
        (let (segs, closed) = scan_template (InAction []) cs in (TextSeg acc # segs, closed))
      else scan_template (InText (acc @ [CHR ''{'', c])) cs)"
| "scan_template (InAction a) (c # cs) =
     (if c = CHR ''}'' then scan_template (SeenRight a) cs
      else scan_template (InAction (a @ [c])) cs)"
| "scan_template (SeenRight a) (c # cs) =
     (if c = CHR ''}'' then
        (let (segs, closed) = scan_template (InText []) cs in (ActionSeg a # segs, closed))
      else scan_template (InAction (a @ [CHR ''}'', c])) cs)"

definition isBlank :: "char \<Rightarrow> bool" where
  "isBlank c = (c = CHR '' '' \<or> c = CHR 0x09)"

definition isAlphaNumeric :: "char \<Rightarrow> bool" where
  "isAlphaNumeric c =
     (c = CHR ''_'' \<or> byte_in 0x41 0x5A c \<or> byte_in 0x61 0x7A c \<or> byte_in 0x30 0x39 c)"

definition field_action :: "string \<Rightarrow> string option" where
  "field_action a =
     (case dropWhile isBlank a of
        [] \<Rightarrow> None
      | d # r \<Rightarrow>
          let name = takeWhile isAlphaNumeric r; rest = dropWhile isAlphaNumeric r
          in if d = CHR ''.'' \<and> name \<noteq> [] \<and> \<not> isDigit (hd name) \<and> list_all isBlank rest
             then Some name else None)"

datatype node = TextNode string | FieldNode string

fun segment_node :: "segment \<Rightarrow> node option" where
  "segment_node (TextSeg s) = Some (TextNode s)"
| "segment_node (ActionSeg a) = map_option FieldNode (field_action a)"

definition field_template :: "string \<Rightarrow> node list option" where
  "field_template text =
     (let (segs, closed) = scan_template (InText []) text in
      if closed \<and> list_all (\<lambda>s. segment_node s \<noteq> None) segs
      then Some (map (\<lambda>s. the (segment_node s)) segs) else None)"

fun execute_nodes :: "node list \<Rightarrow> TemplateESQuery \<Rightarrow> string option" where
  "execute_nodes [] data = Some []"
| "execute_nodes (TextNode s # ns) data = map_option ((@) s) (execute_nodes ns data)"
| "execute_nodes (FieldNode f # ns) data =
     (if f = ''TimeFrom'' then
        map_option ((@) (strconv_FormatInt (TimeFrom data))) (execute_nodes ns data)
      else if f = ''Query'' then map_option ((@) (Query data)) (execute_nodes ns data)
      else None)"

text \<open>
  The engine as a value for the field \<open>template_Parse\<close> of an environment; \<open>e\<close> is the
  error it answers with.
\<close>

definition text_template :: "error \<Rightarrow> string \<Rightarrow> error + (TemplateESQuery \<Rightarrow> error + string)" where
  "text_template e text =
     (case field_template text of
        None \<Rightarrow> Inl e
      | Some ns \<Rightarrow>
          Inr (\<lambda>data. case execute_nodes ns data of None \<Rightarrow> Inl e | Some out \<Rightarrow> Inr out))"

text \<open>
  Filling the placeholders, in the specification's words: every \<open>TimeFrom\<close> placeholder
  is replaced by one text, every other placeholder by another, the literal text stays.
\<close>

definition fill_placeholders :: "node list \<Rightarrow> string \<Rightarrow> string \<Rightarrow> string" where
  "fill_placeholders ns time_text query_text =
     concat (map (\<lambda>n. case n of
                         TextNode s \<Rightarrow> s
                       | FieldNode f \<Rightarrow> if f = ''TimeFrom'' then time_text else query_text) ns)"

fun node_fields :: "node list \<Rightarrow> string list" where
  "node_fields [] = []"
| "node_fields (TextNode s # ns) = node_fields ns"
| "node_fields (FieldNode f # ns) = f # node_fields ns"

subsection \<open>Library: \<open>encoding/json\<close>\<close>

text \<open>
  \<open>json.Unmarshal\<close> first checks that the whole input is one well-formed JSON text and
  then decodes it into the Go value. The check is modelled by a scanner over the bytes
  and a stack automaton over its tokens, which builds the JSON value on the way; it
  accepts the grammar of RFC 8259 as the scanner of \<open>encoding/json\<close> does (white space is
  space, tab, line feed and carriage return; a string has no byte below \<open>0x20\<close> and only
  the escapes \<open>\" \\ \/ \b \f \n \r \t \uXXXX\<close>; a number is
  \<open>-?(0|[1-9][0-9]*)(.[0-9]+)?([eE][+-]?[0-9]+)?\<close>), and like that scanner it rejects
  a text whose arrays and objects are nested more than 10000 deep. A number keeps its
  text, a string is unquoted as the decoder does it.
\<close>

datatype json = JNull | JBool bool | JNumber string | JString string
  | JArray "json list" | JObject "(string \<times> json) list"

datatype token = TBeginObject | TEndObject | TBeginArray | TEndArray | TColon | TComma
  | TString string | TNumber string | TLiteral json

definition isSpace :: "char \<Rightarrow> bool" where
  "isSpace c = (c = CHR '' '' \<or> c = CHR 0x09 \<or> c = CHR 0x0D \<or> c = CHR 0x0A)"

definition isHex :: "char \<Rightarrow> bool" where
  "isHex c = (byte_in 0x30 0x39 c \<or> byte_in 0x61 0x66 c \<or> byte_in 0x41 0x46 c)"

definition hexval :: "char \<Rightarrow> nat" where
  "hexval c = (if byte_in 0x30 0x39 c then of_char c - 0x30
               else if byte_in 0x61 0x66 c then of_char c - 0x61 + 10
               else of_char c - 0x41 + 10)"

text \<open>
  \<open>getu4\<close> reads \<open>\uXXXX\<close> at the head of the text; \<open>utf16.DecodeRune\<close> joins a surrogate
  pair and is \<open>U+FFFD\<close> on anything else; \<open>unquote\<close> resolves the escapes of a string's
  raw text, writes a lone surrogate and each byte of ill-formed UTF-8 as \<open>U+FFFD\<close>, and
  copies the rest.
\<close>

definition getu4 :: "string \<Rightarrow> nat option" where
  "getu4 s =
     (case s of
        b # u # h1 # h2 # h3 # h4 # _ \<Rightarrow>
          if b = CHR 0x5C \<and> u = CHR ''u'' \<and> isHex h1 \<and> isHex h2 \<and> isHex h3 \<and> isHex h4
          then Some (((hexval h1 * 16 + hexval h2) * 16 + hexval h3) * 16 + hexval h4)
          else None
      | _ \<Rightarrow> None)"

definition utf16_DecodeRune :: "nat \<Rightarrow> nat option \<Rightarrow> nat" where
  "utf16_DecodeRune r1 r2 =
     (case r2 of
        Some r2' \<Rightarrow>
          if 0xD800 \<le> r1 \<and> r1 < 0xDC00 \<and> 0xDC00 \<le> r2' \<and> r2' < 0xE000
          then (r1 - 0xD800) * 0x400 + (r2' - 0xDC00) + 0x10000
          else 0xFFFD
      | None \<Rightarrow> 0xFFFD)"

definition escape_byte :: "char \<Rightarrow> char" where
  "escape_byte c =
     (if c = CHR ''b'' then CHR 0x08 else if c = CHR ''f'' then CHR 0x0C
      else if c = CHR ''n'' then CHR 0x0A else if c = CHR ''r'' then CHR 0x0D
      else if c = CHR ''t'' then CHR 0x09 else c)"

function unquote :: "string \<Rightarrow> string" where
  "unquote [] = []"
| "unquote (c # cs) =
     (if c = CHR 0x5C then
        (case cs of
           [] \<Rightarrow> []
         | e # rest \<Rightarrow>
             if e = CHR ''u'' then
               (case getu4 (c # cs) of
                  None \<Rightarrow> []
                | Some rr \<Rightarrow>
                    if 0xD800 \<le> rr \<and> rr < 0xE000 then
                      (let dec = utf16_DecodeRune rr (getu4 (drop 5 cs)) in
                       if dec \<noteq> 0xFFFD then utf8_EncodeRune dec @ unquote (drop 11 cs)
                       else utf8_EncodeRune 0xFFFD @ unquote (drop 5 cs))
                    else utf8_EncodeRune rr @ unquote (drop 5 cs))
             else escape_byte e # unquote rest)
      else if byte_in 0x00 0x7F c then c # unquote cs
      else (let w = utf8_width (c # cs) in
            if w = 1 then utf8_EncodeRune 0xFFFD @ unquote cs
            else take w (c # cs) @ unquote (drop w (c # cs))))"
  by pat_completeness auto
termination
  by (relation "measure length") (auto simp del: utf8_width.simps simp: utf8_width_drop_less)

declare unquote.simps [simp del]

text \<open>
  The scanner. A number ends at the first byte that cannot continue it, and that byte is
  then scanned as the start of the next token.
\<close>

datatype num_phase = NMinus | NZero | NInt | NDot | NFrac | NExp | NExpSign | NExpDigits

datatype lex_state = LStart | LString string | LEscape string | LUnicode string nat
  | LNumber string num_phase | LLiteral string token

definition lex_start :: "char \<Rightarrow> (token list \<times> lex_state) option" where
  "lex_start c =
     (if isSpace c then Some ([], LStart)
      else if c = CHR ''{'' then Some ([TBeginObject], LStart)
      else if c = CHR ''}'' then Some ([TEndObject], LStart)
      else if c = CHR ''['' then Some ([TBeginArray], LStart)
      else if c = CHR '']'' then Some ([TEndArray], LStart)
      else if c = CHR '':'' then Some ([TColon], LStart)
      else if c = CHR '','' then Some ([TComma], LStart)
      else if c = CHR 0x22 then Some ([], LString [])
      else if c = CHR ''-'' then Some ([], LNumber [c] NMinus)
      else if c = CHR ''0'' then Some ([], LNumber [c] NZero)
      else if isDigit c then Some ([], LNumber [c] NInt)
      else if c = CHR ''t'' then Some ([], LLiteral ''rue'' (TLiteral (JBool True)))
      else if c = CHR ''f'' then Some ([], LLiteral ''alse'' (TLiteral (JBool False)))
      else if c = CHR ''n'' then Some ([], LLiteral ''ull'' (TLiteral JNull))
      else None)"

fun num_step :: "num_phase \<Rightarrow> char \<Rightarrow> num_phase option" where
  "num_step NMinus c =
     (if c = CHR ''0'' then Some NZero else if isDigit c then Some NInt else None)"
| "num_step NZero c =
     (if c = CHR ''.'' then Some NDot
      else if c = CHR ''e'' \<or> c = CHR ''E'' then Some NExp else None)"
| "num_step NInt c =
     (if isDigit c then Some NInt else if c = CHR ''.'' then Some NDot
      else if c = CHR ''e'' \<or> c = CHR ''E'' then Some NExp else None)"
| "num_step NDot c = (if isDigit c then Some NFrac else None)"
| "num_step NFrac c =
     (if isDigit c then Some NFrac
      else if c = CHR ''e'' \<or> c = CHR ''E'' then Some NExp else None)"
| "num_step NExp c =
     (if c = CHR ''+'' \<or> c = CHR ''-'' then Some NExpSign
      else if isDigit c then Some NExpDigits else None)"
| "num_step NExpSign c = (if isDigit c then Some NExpDigits else None)"
| "num_step NExpDigits c = (if isDigit c then Some NExpDigits else None)"

fun num_final :: "num_phase \<Rightarrow> bool" where
  "num_final NZero = True"
| "num_final NInt = True"
| "num_final NFrac = True"
| "num_final NExpDigits = True"
| "num_final _ = False"

fun lex_step :: "lex_state \<Rightarrow> char \<Rightarrow> (token list \<times> lex_state) option" where
  "lex_step LStart c = lex_start c"
| "lex_step (LString raw) c =
     (if c = CHR 0x22 then Some ([TString (unquote raw)], LStart)
      else if c = CHR 0x5C then Some ([], LEscape (raw @ [c]))
      else if byte_in 0x00 0x1F c then None
      else Some ([], LString (raw @ [c])))"
| "lex_step (LEscape raw) c =
     (if c \<in> set [CHR ''b'', CHR ''f'', CHR ''n'', CHR ''r'', CHR ''t'', CHR 0x5C, CHR ''/'',
                   CHR 0x22]
      then Some ([], LString (raw @ [c]))
      else if c = CHR ''u'' then Some ([], LUnicode (raw @ [c]) 0)
      else None)"
| "lex_step (LUnicode raw n) c =
     (if isHex c then
        (if n = 3 then Some ([], LString (raw @ [c]))
         else Some ([], LUnicode (raw @ [c]) (Suc n)))
      else None)"
| "lex_step (LNumber text ph) c =
     (case num_step ph c of
        Some ph' \<Rightarrow> Some ([], LNumber (text @ [c]) ph')
      | None \<Rightarrow>
          if num_final ph then
            (case lex_start c of
               None \<Rightarrow> None
             | Some (ts, st) \<Rightarrow> Some (TNumber text # ts, st))
          else None)"
| "lex_step (LLiteral rest tok) c =
     (case rest of
        [] \<Rightarrow> None
      | x # xs \<Rightarrow>
          if c \<noteq> x then None
          else if xs = [] then Some ([tok], LStart)
          else Some ([], LLiteral xs tok))"

fun lex_end :: "lex_state \<Rightarrow> token list option" where
  "lex_end LStart = Some []"
| "lex_end (LNumber text ph) = (if num_final ph then Some [TNumber text] else None)"
| "lex_end _ = None"

fun lex_run :: "lex_state \<Rightarrow> string \<Rightarrow> token list option" where
  "lex_run st [] = lex_end st"
| "lex_run st (c # cs) =
     (case lex_step st c of
        None \<Rightarrow> None
      | Some (ts, st') \<Rightarrow> map_option ((@) ts) (lex_run st' cs))"

text \<open>
  The automaton over the tokens. A frame of its stack is an array or an object under
  construction, the latter possibly holding the key whose value is awaited; the mode says
  which tokens may come next. The stack is the scanner's \<open>parseState\<close>: opening an array
  or an object pushes a frame, and the scanner fails with \<open>exceeded max depth\<close> when the
  stack would grow beyond the limit \<open>lim\<close>.
\<close>

datatype frame = ArrayFrame "json list" | ObjectFrame "(string \<times> json) list"
  | MemberFrame "(string \<times> json) list" string

datatype parse_mode = BeginValue | BeginValueOrEmpty | BeginStringOrEmpty | BeginString
  | ObjectKey | EndValue | EndTop json

fun push_value :: "json \<Rightarrow> frame list \<Rightarrow> (frame list \<times> parse_mode) option" where
  "push_value v [] = Some ([], EndTop v)"
| "push_value v (ArrayFrame xs # st) = Some (ArrayFrame (xs @ [v]) # st, EndValue)"
| "push_value v (MemberFrame ms k # st) = Some (ObjectFrame (ms @ [(k, v)]) # st, EndValue)"
| "push_value v (ObjectFrame ms # st) = None"

fun is_value_mode :: "parse_mode \<Rightarrow> bool" where
  "is_value_mode BeginValue = True"
| "is_value_mode BeginValueOrEmpty = True"
| "is_value_mode _ = False"

fun parse_step ::
  "int \<Rightarrow> frame list \<times> parse_mode \<Rightarrow> token \<Rightarrow> (frame list \<times> parse_mode) option" where
  "parse_step lim (st, m) TBeginArray =
     (if is_value_mode m \<and> int (length st) < lim
      then Some (ArrayFrame [] # st, BeginValueOrEmpty) else None)"
| "parse_step lim (st, m) TBeginObject =
     (if is_value_mode m \<and> int (length st) < lim
      then Some (ObjectFrame [] # st, BeginStringOrEmpty) else None)"
| "parse_step lim (st, m) (TLiteral v) = (if is_value_mode m then push_value v st else None)"
| "parse_step lim (st, m) (TNumber n) =
     (if is_value_mode m then push_value (JNumber n) st else None)"
| "parse_step lim (st, m) (TString s) =
     (if is_value_mode m then push_value (JString s) st
      else if m = BeginStringOrEmpty \<or> m = BeginString then
        (case st of
           ObjectFrame ms # st' \<Rightarrow> Some (MemberFrame ms s # st', ObjectKey)
         | _ \<Rightarrow> None)
      else None)"
| "parse_step lim (st, m) TColon = (if m = ObjectKey then Some (st, BeginValue) else None)"
| "parse_step lim (st, m) TComma =
     (if m = EndValue then
        (case st of
           ArrayFrame xs # _ \<Rightarrow> Some (st, BeginValue)
         | ObjectFrame ms # _ \<Rightarrow> Some (st, BeginString)
         | _ \<Rightarrow> None)
      else None)"
| "parse_step lim (st, m) TEndArray =
     (if m = BeginValueOrEmpty \<or> m = EndValue then
        (case st of ArrayFrame xs # st' \<Rightarrow> push_value (JArray xs) st' | _ \<Rightarrow> None)
      else None)"
| "parse_step lim (st, m) TEndObject =
     (if m = BeginStringOrEmpty \<or> m = EndValue then
        (case st of ObjectFrame ms # st' \<Rightarrow> push_value (JObject ms) st' | _ \<Rightarrow> None)
      else None)"

fun parse_run :: "int \<Rightarrow> frame list \<times> parse_mode \<Rightarrow> token list \<Rightarrow> json option" where
  "parse_run lim (st, m) [] = (case m of EndTop v \<Rightarrow> Some v | _ \<Rightarrow> None)"
| "parse_run lim (st, m) (t # ts) =
     (case parse_step lim (st, m) t of None \<Rightarrow> None | Some s' \<Rightarrow> parse_run lim s' ts)"

definition json_parse_within :: "int \<Rightarrow> string \<Rightarrow> json option" where
  "json_parse_within lim data =
     (case lex_run LStart data of
        None \<Rightarrow> None
      | Some ts \<Rightarrow> parse_run lim ([], BeginValue) ts)"

text \<open>
  \<open>const maxNestingDepth = 10000\<close>. \<open>json_parse data\<close> is the value of a text that the check
  of \<open>json.Unmarshal\<close> accepts, one that is well-formed and nested no deeper than this, and
  \<open>None\<close> for any other.
\<close>

definition maxNestingDepth :: int where
  "maxNestingDepth = 10000"

definition json_parse :: "string \<Rightarrow> json option" where
  "json_parse data = json_parse_within maxNestingDepth data"

text \<open>
  Decoding into \<open>QueryResult\<close>. The members of an object are stored in their order; a key
  selects the struct field of the same name or else the one equal to it under case
  folding (ASCII letters, and besides them the long s, \<open>U+017F\<close>, for \<open>s\<close> and the Kelvin
  sign, \<open>U+212A\<close>, for \<open>k\<close>); other members are skipped. \<open>null\<close> leaves a struct or an
  \<open>int\<close> as it is. A value of another kind than the field's, or a number that
  \<open>strconv.ParseInt\<close> rejects, leaves the field as it is and saves an
  \<open>UnmarshalTypeError\<close>, the first of which is returned once the whole value is decoded.
\<close>

datatype json_error = SyntaxError | UnmarshalTypeError

record hits_struct =
  Total :: go_int

record QueryResult =
  Hits :: hits_struct

definition asciiUpper :: "char \<Rightarrow> char" where
  "asciiUpper c = (if byte_in 0x61 0x7A c then char_of (of_char c - (0x20 :: nat)) else c)"

fun equalFold :: "string \<Rightarrow> string \<Rightarrow> bool" where
  "equalFold [] t = (t = [])"
| "equalFold (sb # s) [] = False"
| "equalFold (sb # s) (tb # t) =
     (if byte_in 0x00 0x7F tb then asciiUpper sb = asciiUpper tb \<and> equalFold s t
      else if asciiUpper sb = CHR ''S'' then
        (case t of t1 # t' \<Rightarrow> tb = CHR 0xC5 \<and> t1 = CHR 0xBF \<and> equalFold s t' | [] \<Rightarrow> False)
      else if asciiUpper sb = CHR ''K'' then
        (case t of
           t1 # t2 # t' \<Rightarrow> tb = CHR 0xE2 \<and> t1 = CHR 0x84 \<and> t2 = CHR 0xAA \<and> equalFold s t'
         | _ \<Rightarrow> False)
      else False)"

definition findField :: "string list \<Rightarrow> string \<Rightarrow> string option" where
  "findField names key =
     (if key \<in> set names then Some key else find (\<lambda>f. equalFold f key) names)"

definition saveError :: "json_error \<Rightarrow> json_error option \<Rightarrow> json_error option" where
  "saveError e saved = (case saved of None \<Rightarrow> Some e | Some e' \<Rightarrow> Some e')"

fun decode_int :: "json \<Rightarrow> go_int \<times> json_error option \<Rightarrow> go_int \<times> json_error option" where
  "decode_int (JNumber lit) (v, saved) =
     (case strconv_ParseInt lit of
        Some n \<Rightarrow> (n, saved)
      | None \<Rightarrow> (v, saveError UnmarshalTypeError saved))"
| "decode_int JNull (v, saved) = (v, saved)"
| "decode_int _ (v, saved) = (v, saveError UnmarshalTypeError saved)"

definition decode_hits_member ::
  "string \<times> json \<Rightarrow> hits_struct \<times> json_error option \<Rightarrow> hits_struct \<times> json_error option" where
  "decode_hits_member m st =
     (case findField [''total''] (fst m) of
        Some f \<Rightarrow> (let (n, saved) = decode_int (snd m) (Total (fst st), snd st)
                   in ((fst st)\<lparr>Total := n\<rparr>, saved))
      | None \<Rightarrow> st)"

fun decode_hits ::
  "json \<Rightarrow> hits_struct \<times> json_error option \<Rightarrow> hits_struct \<times> json_error option" where
  "decode_hits (JObject ms) st = foldl (\<lambda>st m. decode_hits_member m st) st ms"
| "decode_hits JNull st = st"
| "decode_hits _ (h, saved) = (h, saveError UnmarshalTypeError saved)"

definition decode_QueryResult_member ::
  "string \<times> json \<Rightarrow> QueryResult \<times> json_error option \<Rightarrow> QueryResult \<times> json_error option" where
  "decode_QueryResult_member m st =
     (case findField [''hits''] (fst m) of
        Some f \<Rightarrow> (let (h, saved) = decode_hits (snd m) (Hits (fst st), snd st)
                   in ((fst st)\<lparr>Hits := h\<rparr>, saved))
      | None \<Rightarrow> st)"

fun decode_QueryResult ::
  "json \<Rightarrow> QueryResult \<times> json_error option \<Rightarrow> QueryResult \<times> json_error option" where
  "decode_QueryResult (JObject ms) st = foldl (\<lambda>st m. decode_QueryResult_member m st) st ms"
| "decode_QueryResult JNull st = st"
| "decode_QueryResult _ (r, saved) = (r, saveError UnmarshalTypeError saved)"

definition json_Unmarshal :: "string \<Rightarrow> QueryResult \<Rightarrow> QueryResult \<times> json_error option" where
  "json_Unmarshal data v =
     (case json_parse data of
        None \<Rightarrow> (v, Some SyntaxError)
      | Some j \<Rightarrow> decode_QueryResult j (v, None))"

subsection \<open>\<open>parseResult\<close>\<close>

text \<open>
  \<open>var result QueryResult\<close> is the zero value. The function returns both the result and
  the error, so the model returns the pair.
\<close>

definition QueryResult_zero :: QueryResult where
  "QueryResult_zero = \<lparr>Hits = \<lparr>Total = 0\<rparr>\<rparr>"

definition parseResult :: "string \<Rightarrow> QueryResult \<times> error option" where
  "parseResult data =
     (let (result, err) = json_Unmarshal data QueryResult_zero
      in if err \<noteq> None then (result, Some (Error ''JSON parse failed''))
         else (result, None))"

subsection \<open>Effects\<close>

text \<open>
  The program acts on the world by posting HTTP requests, by passing one \<open>Msg\<close> from the
  goroutine to \<open>main\<close> over the unbuffered channel \<open>c\<close>, and by adding results to the
  Nagios check. A function with effects returns the list of its actions, in order.
  \<open>HttpPost url content\<close> is one POST through \<open>gorequest\<close>, with the URL and the content
  that the program hands over.
\<close>

record Msg =
  Count :: go_int
  Err :: "error option"

datatype status = OK | WARNING | CRITICAL | UNKNOWN

datatype action = GoPipeline | HttpPost string string | ChanSend Msg | ChanRecv Msg
  | TimerFired | AddResult status string

subsection \<open>\<open>esQueryPost\<close>\<close>

definition esQueryPost :: "env \<Rightarrow> string \<Rightarrow> string \<Rightarrow> action list \<times> (error + string)" where
  "esQueryPost w url content =
     ([HttpPost url content],
      case gorequest_Post w url content of
        TransportErrors errs \<Rightarrow> Inl (Error (strings_Join errs '', ''))
      | Response statusCode status body \<Rightarrow>
          if statusCode \<noteq> 200 then Inl (Error (''HTTP response code: '' @ status))
          else Inr body)"

subsection \<open>\<open>getQueryResultCount\<close>\<close>

text \<open>
  \<open>var msg Msg\<close> starts as the zero value, so a message with an error has the count 0.
  Every path ends in \<open>c <- msg\<close>.
\<close>

definition getQueryResultCount ::
  "env \<Rightarrow> string \<Rightarrow> string \<Rightarrow> string \<Rightarrow> string \<Rightarrow> int64 \<Rightarrow> action list" where
  "getQueryResultCount w url indexPat tmplSource query timeFrom =
     (case getRenderedTemplate w tmplSource query timeFrom of
        Inl err \<Rightarrow> [ChanSend \<lparr>Count = 0, Err = Some err\<rparr>]
      | Inr tmpl \<Rightarrow>
          let currentTime = time_Now_Local w;
              url' = url @ ''/'' @ indexPat @ ''-'' @ time_Format currentTime @ ''/_search'';
              (posted, r) = esQueryPost w url' tmpl
          in posted @
             (case r of
                Inl err \<Rightarrow> [ChanSend \<lparr>Count = 0, Err = Some err\<rparr>]
              | Inr data \<Rightarrow>
                  (case parseResult data of
                     (result, Some err) \<Rightarrow> [ChanSend \<lparr>Count = 0, Err = Some err\<rparr>]
                   | (result, None) \<Rightarrow>
                       [ChanSend \<lparr>Count = Total (Hits result), Err = None\<rparr>])))"

subsection \<open>\<open>main\<close>\<close>

text \<open>The flags, as \<open>kingpin.Parse()\<close> leaves them.\<close>

record config =
  esURL :: string
  timeout :: go_int
  timePeriod :: go_int
  indexPattern :: string
  esQuery :: string
  countThreshold :: go_int
  compareOperator :: string

text \<open>
  \<open>fmt.Sprintf("%d entries of '%s' (%.2f%%) found in the past %d minutes", msg.Count,
  *esQuery, perc, *timePeriod)\<close>; the apostrophe is the byte \<open>0x27\<close>.
\<close>

definition entries_text :: "env \<Rightarrow> config \<Rightarrow> go_int \<Rightarrow> string" where
  "entries_text w cfg n =
     strconv_FormatInt n @ '' entries of '' @ [CHR 0x27] @ esQuery cfg @ [CHR 0x27] @ '' (''
       @ sprintf_percent w n (countThreshold cfg) @ ''%) found in the past ''
       @ strconv_FormatInt (timePeriod cfg) @ '' minutes''"

text \<open>The body of \<open>case msg = <-c\<close>.\<close>

definition on_message :: "env \<Rightarrow> config \<Rightarrow> Msg \<Rightarrow> action list" where
  "on_message w cfg msg =
     (case Err msg of
        None \<Rightarrow>
          if (compareOperator cfg = ''gt'' \<and> sint (countThreshold cfg) \<le> sint (Count msg))
             \<or> (compareOperator cfg = ''lt'' \<and> sint (Count msg) \<le> sint (countThreshold cfg))
          then [AddResult OK (entries_text w cfg (Count msg))]
          else if (compareOperator cfg = ''gt'' \<and> sint (Count msg) < sint (countThreshold cfg))
             \<or> (compareOperator cfg = ''lt'' \<and> sint (countThreshold cfg) < sint (Count msg))
          then [AddResult CRITICAL (entries_text w cfg (Count msg))]
          else []
      | Some e \<Rightarrow> [AddResult UNKNOWN (error_message e)])"

text \<open>The goroutine that \<open>main\<close> starts, with the arguments of the \<open>go\<close> statement.\<close>

definition pipeline :: "env \<Rightarrow> config \<Rightarrow> action list" where
  "pipeline w cfg =
     getQueryResultCount w (esURL cfg) (indexPattern cfg) templateSource
       (normalizeEsQuery (esQuery cfg)) (time_Now_Unix w - 60 * timePeriod cfg)"

text \<open>
  The \<open>select\<close> waits for the message of the goroutine and for the timer of
  \<open>time.After\<close>. Which of the two comes first is decided by the run, not by the program:
  it is the schedule, an input of the model. With \<open>MessageFirst\<close> the goroutine runs to its
  send and \<open>main\<close> receives the message. With \<open>TimerFirst k\<close> the timer fires when the
  goroutine has done \<open>k\<close> of its actions (all of them, if there are fewer), and a send that
  nobody receives is never completed; the process then ends at \<open>check.Finish()\<close>. How
  the duration of the timer and the time that the goroutine takes decide the schedule is
  the matter of \<open>select_schedule\<close> below; \<open>main_timed\<close> is the program run against the
  clock.
\<close>

datatype schedule = MessageFirst | TimerFirst nat

fun sent_message :: "action list \<Rightarrow> Msg option" where
  "sent_message [] = None"
| "sent_message (ChanSend m # as) = Some m"
| "sent_message (_ # as) = sent_message as"

fun is_send :: "action \<Rightarrow> bool" where
  "is_send (ChanSend m) = True"
| "is_send _ = False"

definition main :: "env \<Rightarrow> config \<Rightarrow> schedule \<Rightarrow> action list" where
  "main w cfg sched =
     (if compareOperator cfg \<noteq> ''lt'' \<and> compareOperator cfg \<noteq> ''gt'' then
        [AddResult UNKNOWN
           (''compare-operator parameter should be '' @ [CHR 0x27] @ ''lt'' @ [CHR 0x27]
              @ '' or '' @ [CHR 0x27] @ ''gt'' @ [CHR 0x27])]
      else if countThreshold cfg = 0 then
        [AddResult UNKNOWN ''threshold cannot be equal to 0'']
      else
        GoPipeline #
        (case sched of
           MessageFirst \<Rightarrow>
             (case sent_message (pipeline w cfg) of
                Some msg \<Rightarrow> pipeline w cfg @ ChanRecv msg # on_message w cfg msg
              | None \<Rightarrow>
                  pipeline w cfg @ [TimerFired, AddResult UNKNOWN ''connection timeout''])
         | TimerFirst k \<Rightarrow>
             take k (filter (\<lambda>a. \<not> is_send a) (pipeline w cfg))
               @ [TimerFired, AddResult UNKNOWN ''connection timeout'']))"

subsection \<open>The timer of the \<open>select\<close>\<close>

text \<open>
  \<open>time.After(time.Second * time.Duration(*timeout))\<close>. A \<open>Duration\<close> is an \<open>int64\<close> number
  of nanoseconds and \<open>time.Second\<close> is 1000000000 of them; the conversion of the \<open>int\<close>
  flag keeps its value and the product is the one of \<open>int64\<close>, which wraps around.
\<close>

definition time_Second :: int64 where
  "time_Second = 1000000000"


text \<open>
  \<open>time.After d\<close> sets a timer for the instant \<open>when(d)\<close> of the monotonic clock, whose
  reading at the call is \<open>runtimeNano()\<close>, a positive number of nanoseconds: that very
  reading if \<open>d\<close> is zero or negative, otherwise the reading plus \<open>d\<close>, replaced by the
  greatest \<open>int64\<close> if the sum has overflowed. \<open>timer_delay now d\<close> is the number of
  nanoseconds from the call to that instant.
\<close>

definition time_when :: "int64 \<Rightarrow> int64 \<Rightarrow> int64" where
  "time_when now d =
     (if sint d \<le> 0 then now
      else let t = now + d in if sint t < 0 then 2 ^ 63 - 1 else t)"

definition timer_delay :: "int64 \<Rightarrow> int64 \<Rightarrow> nat" where
  "timer_delay now d = nat (sint (time_when now d) - sint now)"




subsection \<open>Reading a run\<close>

text \<open>
  The results that the check holds when it finishes, the requests that were posted, and
  what the \<open>select\<close> consumed.
\<close>

fun results :: "action list \<Rightarrow> (status \<times> string) list" where
  "results [] = []"
| "results (AddResult s m # as) = (s, m) # results as"
| "results (_ # as) = results as"

fun http_requests :: "action list \<Rightarrow> (string \<times> string) list" where
  "http_requests [] = []"
| "http_requests (HttpPost u b # as) = (u, b) # http_requests as"
| "http_requests (_ # as) = http_requests as"

fun sends :: "action list \<Rightarrow> Msg list" where
  "sends [] = []"
| "sends (ChanSend m # as) = m # sends as"
| "sends (_ # as) = sends as"

fun consumed :: "action list \<Rightarrow> action list" where
  "consumed [] = []"
| "consumed (ChanRecv m # as) = ChanRecv m # consumed as"
| "consumed (TimerFired # as) = TimerFired # consumed as"
| "consumed (_ # as) = consumed as"

subsection \<open>The result parser in the specification's words\<close>

text \<open>
  The members of an object that the decoder stores into the field of a given name, and
  whether a JSON value has a \<open>hits.total\<close> field: it is an object with a \<open>hits\<close> member that
  is an object with a \<open>total\<close> member.
\<close>

definition members_named :: "string \<Rightarrow> (string \<times> json) list \<Rightarrow> json list" where
  "members_named name ms = map snd (filter (\<lambda>m. findField [name] (fst m) \<noteq> None) ms)"

fun object_members :: "json \<Rightarrow> (string \<times> json) list" where
  "object_members (JObject ms) = ms"
| "object_members _ = []"

definition has_hits_total :: "json \<Rightarrow> bool" where
  "has_hits_total v =
     list_ex (\<lambda>h. members_named ''total'' (object_members h) \<noteq> [])
       (members_named ''hits'' (object_members v))"

text \<open>
  A \<open>total\<close> is numeric when it is a number that fits the field: an integer numeral
  within the range of \<open>int64\<close>.
\<close>

fun numeric_total :: "json \<Rightarrow> bool" where
  "numeric_total (JNumber lit) = (strconv_ParseInt lit \<noteq> None)"
| "numeric_total _ = False"

definition non_numeric_total :: "json \<Rightarrow> bool" where
  "non_numeric_total v =
     list_ex (\<lambda>h. list_ex (\<lambda>t. \<not> numeric_total t) (members_named ''total'' (object_members h)))
       (members_named ''hits'' (object_members v))"

text \<open>
  What the decoder cannot store: a value that is present where a struct or the integer
  is expected and is neither \<open>null\<close> nor of that kind.
\<close>

fun total_mismatch :: "json \<Rightarrow> bool" where
  "total_mismatch JNull = False"
| "total_mismatch (JNumber lit) = (strconv_ParseInt lit = None)"
| "total_mismatch _ = True"

fun hits_mismatch :: "json \<Rightarrow> bool" where
  "hits_mismatch JNull = False"
| "hits_mismatch (JObject hs) = list_ex total_mismatch (members_named ''total'' hs)"
| "hits_mismatch _ = True"

fun type_mismatch :: "json \<Rightarrow> bool" where
  "type_mismatch JNull = False"
| "type_mismatch (JObject ms) = list_ex hits_mismatch (members_named ''hits'' ms)"
| "type_mismatch _ = True"

text \<open>
  Where no \<open>total\<close> is present, what cannot be stored is a value in the place of a struct:
  the top-level value or a \<open>hits\<close> member that is neither an object nor \<open>null\<close>.
\<close>

fun object_or_null :: "json \<Rightarrow> bool" where
  "object_or_null (JObject ms) = True"
| "object_or_null JNull = True"
| "object_or_null _ = False"

definition structs_fit :: "json \<Rightarrow> bool" where
  "structs_fit v =
     (object_or_null v \<and> list_all object_or_null (members_named ''hits'' (object_members v)))"

text \<open>The value \<open>v\<close> wrapped into \<open>k\<close> arrays of one element: \<open>[[v]]\<close> for \<open>k = 2\<close>.\<close>

fun nested_arrays :: "nat \<Rightarrow> json \<Rightarrow> json" where
  "nested_arrays 0 v = v"
| "nested_arrays (Suc k) v = nested_arrays k (JArray [v])"

text \<open>The integers that the \<open>total\<close> members hold, in the order of the text.\<close>

fun total_values :: "json list \<Rightarrow> go_int list" where
  "total_values [] = []"
| "total_values (JNumber lit # ts) =
     (case strconv_ParseInt lit of Some n \<Rightarrow> n # total_values ts | None \<Rightarrow> total_values ts)"
| "total_values (_ # ts) = total_values ts"

definition hits_totals :: "json \<Rightarrow> go_int list" where
  "hits_totals h = total_values (members_named ''total'' (object_members h))"

definition all_totals :: "json \<Rightarrow> go_int list" where
  "all_totals v = concat (map hits_totals (members_named ''hits'' (object_members v)))"

definition the_total :: "json \<Rightarrow> go_int" where
  "the_total v = last (0 # all_totals v)"

text \<open>The URL that a request made now goes to.\<close>

definition request_target :: "env \<Rightarrow> string \<Rightarrow> string \<Rightarrow> string" where
  "request_target w url indexPat =
     url @ ''/'' @ indexPat @ ''-'' @ time_Format (time_Now_Local w) @ ''/_search''"

text \<open>A well-formed civil date of the years 0 to 9999, and its ten characters.\<close>

definition civil :: "Date \<Rightarrow> bool" where
  "civil d = (0 \<le> year d \<and> year d \<le> 9999 \<and> 1 \<le> month d \<and> month d \<le> 12
              \<and> 1 \<le> day d \<and> day d \<le> 31)"

definition digit :: "int \<Rightarrow> char" where
  "digit n = char_of (0x30 + n mod 10)"

definition yyyy_mm_dd :: "Date \<Rightarrow> string" where
  "yyyy_mm_dd d =
     [digit (year d div 1000), digit (year d div 100), digit (year d div 10), digit (year d),
      CHR ''.'', digit (month d div 10), digit (month d),
      CHR ''.'', digit (day d div 10), digit (day d)]"

subsection \<open>An example run\<close>

text \<open>
  The flags at their defaults with a threshold of 100, and an environment whose service
  answers every request with the given result, whose templates are the field templates
  and whose percentage always reads \<open>150.00\<close>.
\<close>

definition example_config :: config where
  "example_config =
     \<lparr>esURL = ''http://localhost:9200'', timeout = 20, timePeriod = 5,
      indexPattern = ''logstash-*'', esQuery = ''*'', countThreshold = 100,
      compareOperator = ''gt''\<rparr>"

definition example_env :: "http_result \<Rightarrow> env" where
  "example_env r =
     \<lparr>time_Now_Unix = 1700000000, time_Now_Local = \<lparr>year = 2023, month = 11, day = 14\<rparr>,
      gorequest_Post = (\<lambda>url content. r),
      template_Parse = text_template (Error ''template''),
      sprintf_percent = (\<lambda>n t. ''150.00'')\<rparr>"

definition example_body :: string where
  \<open>example_body = ''{"hits":{"total":150,"max_score":0.0,"hits":[]},"timed_out":false}''\<close>

section \<open>Properties\<close>

subsection \<open>Query escaping\<close>

lemma strings_Index_single_None:
  "strings_Index s [c] = None \<longleftrightarrow> c \<notin> set s"
  by (induction s) auto

lemma strings_Index_single_Some:
  "strings_Index s [c] = Some i \<Longrightarrow> i < length s \<and> s ! i = c \<and> c \<notin> set (take i s)"
proof (induction s arbitrary: i)
  case Nil
  then show ?case by simp
next
  case (Cons x xs)
  show ?case
  proof (cases "x = c")
    case True
    with Cons.prems show ?thesis by simp
  next
    case False
    with Cons.prems obtain j where j: "strings_Index xs [c] = Some j" "i = Suc j"
      by auto
    from Cons.IH [OF j(1)] False j(2) show ?thesis by simp
  qed
qed

lemma escape_no_quote:
  "c \<notin> set s \<Longrightarrow> concat (map (\<lambda>x. if x = c then new else [x]) s) = s"
  by (induction s) auto

lemma replace_loop_single:
  "replace_loop [c] new (strings_Count s [c]) first s
     = concat (map (\<lambda>x. if x = c then new else [x]) s)"
proof (induction s "[c]" arbitrary: first rule: strings_Count.induct)
  case (1 s)
  show ?case
  proof (cases "strings_Index s [c]")
    case None
    then have "c \<notin> set s" by (simp add: strings_Index_single_None)
    with None show ?thesis
      by (subst strings_Count.simps) (simp add: escape_no_quote)
  next
    case (Some i)
    from strings_Index_single_Some [OF Some]
    have i: "i < length s" "s ! i = c" "c \<notin> set (take i s)" by simp_all
    have split: "s = take i s @ c # drop (Suc i) s"
      by (metis i(1) i(2) id_take_nth_drop)
    have IH: "replace_loop [c] new (strings_Count (drop (Suc i) s) [c]) False (drop (Suc i) s)
                = concat (map (\<lambda>x. if x = c then new else [x]) (drop (Suc i) s))"
      using "1.hyps" [OF _ Some, of False] by simp
    have cnt: "strings_Count s [c] = Suc (strings_Count (drop (Suc i) s) [c])"
      using Some by (subst strings_Count.simps) simp
    have "concat (map (\<lambda>x. if x = c then new else [x]) s)
            = concat (map (\<lambda>x. if x = c then new else [x]) (take i s @ c # drop (Suc i) s))"
      using split by simp
    also have "\<dots> = take i s @ new @ concat (map (\<lambda>x. if x = c then new else [x]) (drop (Suc i) s))"
      using i(3) by (simp add: escape_no_quote)
    finally show ?thesis
      using Some IH cnt by simp
  qed
qed

text \<open>
  C6. The escaping applied to the query string before rendering is
  \<^const>\<open>normalizeEsQuery\<close>. For every query string its result is the string with every
  double-quote byte replaced by a backslash followed by a double quote, and every other
  byte unchanged and in its place: the search-and-splice loop of \<open>strings.Replace\<close>
  computes the byte-wise substitution \<^const>\<open>escape_quotes\<close>.
\<close>

theorem normalizeEsQuery_escapes: "normalizeEsQuery str = escape_quotes str"
proof (cases "strings_Count str [CHR 0x22] = 0")
  case True
  then have "strings_Index str [CHR 0x22] = None"
    by (subst (asm) strings_Count.simps) (simp split: option.splits)
  then have "CHR 0x22 \<notin> set str" by (simp add: strings_Index_single_None)
  with True show ?thesis
    by (simp add: normalizeEsQuery_def strings_Replace_def escape_quotes_def escape_no_quote)
next
  case False
  then show ?thesis
    by (simp add: normalizeEsQuery_def strings_Replace_def escape_quotes_def
        replace_loop_single Let_def del: replace_loop.simps)
qed

text \<open>The query \<open>status:"500"\<close> becomes \<open>status:\"500\"\<close>.\<close>

theorem normalizeEsQuery_escapes_witness:
  \<open>normalizeEsQuery ''status:"500"'' = ''status:'' @ [CHR 0x5C] @ ''"500'' @ [CHR 0x5C] @ ''"''\<close>
  using normalizeEsQuery_escapes [of \<open>''status:"500"''\<close>]
  by (simp add: escape_quotes_def)

subsection \<open>The actions of the pipeline and of a run\<close>

lemma getQueryResultCount_cases:
  "(\<exists>m. getQueryResultCount w url ip ts q t = [ChanSend m])
   \<or> (\<exists>u b m. getQueryResultCount w url ip ts q t = [HttpPost u b, ChanSend m])"
  by (auto simp: getQueryResultCount_def esQueryPost_def Let_def
      split: sum.splits prod.splits option.splits)

lemma pipeline_cases:
  "(\<exists>m. pipeline w cfg = [ChanSend m]) \<or> (\<exists>u b m. pipeline w cfg = [HttpPost u b, ChanSend m])"
  unfolding pipeline_def by (rule getQueryResultCount_cases)

lemma results_pipeline: "results (pipeline w cfg) = []"
  using pipeline_cases [of w cfg] by auto

lemma results_append: "results (xs @ ys) = results xs @ results ys"
  by (induction xs rule: results.induct) auto


lemma consumed_append: "consumed (xs @ ys) = consumed xs @ consumed ys"
  by (induction xs rule: consumed.induct) auto

lemma http_requests_append: "http_requests (xs @ ys) = http_requests xs @ http_requests ys"
  by (induction xs rule: http_requests.induct) auto

lemma sends_append: "sends (xs @ ys) = sends xs @ sends ys"
  by (induction xs rule: sends.induct) auto

lemma on_message_only_results:
  "consumed (on_message w cfg m) = [] \<and> http_requests (on_message w cfg m) = []
   \<and> sends (on_message w cfg m) = []"
  by (simp add: on_message_def split: option.splits)

text \<open>
  C9. \<open>getQueryResultCount\<close> has four paths, and each of them sends exactly one message
  on the channel, as its last action: a failure to render sends the error at once; after
  rendering, the one request is posted, and a failed request, a failed parse and a
  success each send once, the error or the count. So it sends exactly one message and
  posts at most one request, whatever the template, the service and the parser do. In
  every run of \<open>main\<close>, whatever the configuration, the environment and the schedule, at
  most one request is posted, at most one message is sent, and the \<open>select\<close> consumes at
  most one of the message and the timer.
\<close>

theorem one_message_one_request:
  "length (sends (getQueryResultCount w url ip ts q t)) = 1
   \<and> (\<exists>m. last (getQueryResultCount w url ip ts q t) = ChanSend m)
   \<and> length (http_requests (getQueryResultCount w url ip ts q t)) \<le> 1
   \<and> (\<forall>e. getRenderedTemplate w ts q t = Inl e
        \<longrightarrow> getQueryResultCount w url ip ts q t = [ChanSend \<lparr>Count = 0, Err = Some e\<rparr>])
   \<and> (\<forall>body e. getRenderedTemplate w ts q t = Inr body
          \<and> snd (esQueryPost w (request_target w url ip) body) = Inl e
        \<longrightarrow> getQueryResultCount w url ip ts q t
              = [HttpPost (request_target w url ip) body, ChanSend \<lparr>Count = 0, Err = Some e\<rparr>])
   \<and> (\<forall>body data e. getRenderedTemplate w ts q t = Inr body
          \<and> snd (esQueryPost w (request_target w url ip) body) = Inr data
          \<and> snd (parseResult data) = Some e
        \<longrightarrow> getQueryResultCount w url ip ts q t
              = [HttpPost (request_target w url ip) body, ChanSend \<lparr>Count = 0, Err = Some e\<rparr>])
   \<and> (\<forall>body data r. getRenderedTemplate w ts q t = Inr body
          \<and> snd (esQueryPost w (request_target w url ip) body) = Inr data
          \<and> parseResult data = (r, None)
        \<longrightarrow> getQueryResultCount w url ip ts q t
              = [HttpPost (request_target w url ip) body,
                 ChanSend \<lparr>Count = Total (Hits r), Err = None\<rparr>])
   \<and> length (http_requests (main w cfg sched)) \<le> 1
   \<and> length (sends (main w cfg sched)) \<le> 1
   \<and> length (consumed (main w cfg sched)) \<le> 1"
proof -
  have a: "length (sends (getQueryResultCount w url ip ts q t)) = 1"
    using getQueryResultCount_cases [of w url ip ts q t] by auto
  have b: "\<exists>m. last (getQueryResultCount w url ip ts q t) = ChanSend m"
    using getQueryResultCount_cases [of w url ip ts q t] by auto
  have c: "length (http_requests (getQueryResultCount w url ip ts q t)) \<le> 1"
    using getQueryResultCount_cases [of w url ip ts q t] by auto
  have p1: "\<forall>e. getRenderedTemplate w ts q t = Inl e
        \<longrightarrow> getQueryResultCount w url ip ts q t = [ChanSend \<lparr>Count = 0, Err = Some e\<rparr>]"
    by (simp add: getQueryResultCount_def)
  have p2: "\<forall>body e. getRenderedTemplate w ts q t = Inr body
          \<and> snd (esQueryPost w (request_target w url ip) body) = Inl e
        \<longrightarrow> getQueryResultCount w url ip ts q t
              = [HttpPost (request_target w url ip) body, ChanSend \<lparr>Count = 0, Err = Some e\<rparr>]"
    by (auto simp: getQueryResultCount_def esQueryPost_def request_target_def Let_def
        split: prod.splits)
  have p3: "\<forall>body data e. getRenderedTemplate w ts q t = Inr body
          \<and> snd (esQueryPost w (request_target w url ip) body) = Inr data
          \<and> snd (parseResult data) = Some e
        \<longrightarrow> getQueryResultCount w url ip ts q t
              = [HttpPost (request_target w url ip) body, ChanSend \<lparr>Count = 0, Err = Some e\<rparr>]"
    by (auto simp: getQueryResultCount_def esQueryPost_def request_target_def Let_def
        split: prod.splits)
  have p4: "\<forall>body data r. getRenderedTemplate w ts q t = Inr body
          \<and> snd (esQueryPost w (request_target w url ip) body) = Inr data
          \<and> parseResult data = (r, None)
        \<longrightarrow> getQueryResultCount w url ip ts q t
              = [HttpPost (request_target w url ip) body,
                 ChanSend \<lparr>Count = Total (Hits r), Err = None\<rparr>]"
    by (auto simp: getQueryResultCount_def esQueryPost_def request_target_def Let_def
        split: prod.splits)
  have d: "length (http_requests (main w cfg sched)) \<le> 1
         \<and> length (sends (main w cfg sched)) \<le> 1
         \<and> length (consumed (main w cfg sched)) \<le> 1"
    using pipeline_cases [of w cfg] on_message_only_results [of w cfg]
    by (cases sched; cases "case sched of TimerFirst k \<Rightarrow> k | _ \<Rightarrow> 0")
       (auto simp: main_def http_requests_append sends_append consumed_append)
  from a b c p1 p2 p3 p4 d show ?thesis by blast
qed

subsection \<open>Validation\<close>

text \<open>
  C3. When the comparison operator is neither \<open>lt\<close> nor \<open>gt\<close>, or the threshold is 0,
  the whole run of \<open>main\<close> is one \<open>UNKNOWN\<close> result: the goroutine of the query pipeline is
  never started and no HTTP request is posted, under every environment and schedule.
\<close>

theorem invalid_config_no_query:
  assumes "(compareOperator cfg \<noteq> ''lt'' \<and> compareOperator cfg \<noteq> ''gt'') \<or> countThreshold cfg = 0"
  shows "(\<exists>m. main w cfg sched = [AddResult UNKNOWN m])
       \<and> map fst (results (main w cfg sched)) = [UNKNOWN]
       \<and> GoPipeline \<notin> set (main w cfg sched)
       \<and> http_requests (main w cfg sched) = []"
  using assms by (auto simp: main_def)

text \<open>The operator \<open>xx\<close> of the specification's sixth scenario.\<close>

theorem invalid_config_no_query_witness:
  "map fst (results (main (example_env (TransportErrors []))
                       (example_config\<lparr>compareOperator := ''xx''\<rparr>) MessageFirst)) = [UNKNOWN]
   \<and> GoPipeline \<notin> set (main (example_env (TransportErrors []))
                          (example_config\<lparr>compareOperator := ''xx''\<rparr>) MessageFirst)
   \<and> http_requests (main (example_env (TransportErrors []))
                       (example_config\<lparr>compareOperator := ''xx''\<rparr>) MessageFirst) = []"
proof -
  have "(compareOperator (example_config\<lparr>compareOperator := ''xx''\<rparr>) \<noteq> ''lt''
          \<and> compareOperator (example_config\<lparr>compareOperator := ''xx''\<rparr>) \<noteq> ''gt'')
        \<or> countThreshold (example_config\<lparr>compareOperator := ''xx''\<rparr>) = 0"
    by simp
  from invalid_config_no_query [OF this] show ?thesis
    by blast
qed

subsection \<open>The program's template and the example run\<close>

lemma field_template_templateSource:
  "field_template templateSource =
     Some [TextNode template_head, FieldNode ''Query'', TextNode template_middle,
           FieldNode ''TimeFrom'', TextNode template_tail]"
  by code_simp

lemma rendered_templateSource:
  assumes "template_Parse w templateSource = text_template e templateSource"
  shows "getRenderedTemplate w templateSource q T =
           Inr (template_head @ q @ template_middle @ strconv_FormatInt (T * 1000)
                  @ template_tail)"
  using assms
  by (simp add: getRenderedTemplate_def text_template_def field_template_templateSource)

lemma example_sent:
  "sent_message (pipeline (example_env (Response 200 ''200 OK'' example_body)) example_config)
     = Some \<lparr>Count = 150, Err = None\<rparr>"
  by code_simp

lemma example_entries_text:
  "entries_text (example_env r) example_config 150
     = ''150 entries of '' @ [CHR 0x27] @ ''*'' @ [CHR 0x27]
         @ '' (150.00%) found in the past 5 minutes''"
  by code_simp

lemma example_rendered:
  "getRenderedTemplate (example_env r) templateSource ''*'' 1699999700
     = Inr (template_head @ ''*'' @ template_middle @ ''1699999700000'' @ template_tail)"
proof -
  have "strconv_FormatInt (1699999700 * 1000) = ''1699999700000''"
    by code_simp
  then show ?thesis
    by (simp add: rendered_templateSource [where e = "Error ''template''"] example_env_def)
qed

text \<open>
  The example run takes the path of success: one request, then the message with the
  count 150.
\<close>

theorem one_message_one_request_witness:
  "getQueryResultCount (example_env (Response 200 ''200 OK'' example_body))
       ''http://localhost:9200'' ''logstash-*'' templateSource ''*'' 1699999700
     = [HttpPost ''http://localhost:9200/logstash-*-2023.11.14/_search''
          (template_head @ ''*'' @ template_middle @ ''1699999700000'' @ template_tail),
        ChanSend \<lparr>Count = 150, Err = None\<rparr>]"
proof -
  have r: "getRenderedTemplate (example_env (Response 200 ''200 OK'' example_body))
             templateSource ''*'' 1699999700
           = Inr (template_head @ ''*'' @ template_middle @ ''1699999700000'' @ template_tail)"
    by (rule example_rendered)
  have u: "request_target (example_env (Response 200 ''200 OK'' example_body))
             ''http://localhost:9200'' ''logstash-*''
           = ''http://localhost:9200/logstash-*-2023.11.14/_search''"
    by code_simp
  have p: "snd (esQueryPost (example_env (Response 200 ''200 OK'' example_body))
                  (request_target (example_env (Response 200 ''200 OK'' example_body))
                     ''http://localhost:9200'' ''logstash-*'')
                  (template_head @ ''*'' @ template_middle @ ''1699999700000'' @ template_tail))
           = Inr example_body"
    by (simp add: esQueryPost_def example_env_def)
  have j: "parseResult example_body = (\<lparr>Hits = \<lparr>Total = 150\<rparr>\<rparr>, None)"
    by code_simp
  from one_message_one_request
         [of "example_env (Response 200 ''200 OK'' example_body)" "''http://localhost:9200''"
             "''logstash-*''" templateSource "''*''" 1699999700] r p j
  have "getQueryResultCount (example_env (Response 200 ''200 OK'' example_body))
          ''http://localhost:9200'' ''logstash-*'' templateSource ''*'' 1699999700
        = [HttpPost (request_target (example_env (Response 200 ''200 OK'' example_body))
                       ''http://localhost:9200'' ''logstash-*'')
             (template_head @ ''*'' @ template_middle @ ''1699999700000'' @ template_tail),
           ChanSend \<lparr>Count = Total (Hits \<lparr>Hits = \<lparr>Total = 150\<rparr>\<rparr>), Err = None\<rparr>]"
    by blast
  then show ?thesis
    by (simp add: u)
qed

subsection \<open>Threshold evaluation\<close>

text \<open>
  C1. Let the configuration be validated (the operator is \<open>gt\<close> or \<open>lt\<close>, the threshold
  is not 0) and let \<open>main\<close> receive from the pipeline a message without error, carrying
  a hit count. Then the check holds exactly one result, with the text of the entries
  line, and it is \<open>OK\<close> exactly when the operator is \<open>gt\<close> and the count is at least the
  threshold, or the operator is \<open>lt\<close> and the count is at most the threshold; it is
  \<open>CRITICAL\<close> exactly when the operator is \<open>gt\<close> and the count is below the threshold, or
  the operator is \<open>lt\<close> and the count is above it; one of the two always holds, and a
  count equal to the threshold is \<open>OK\<close> under both operators. Counts and threshold are
  compared as signed integers.
\<close>

theorem threshold_verdict:
  assumes valid: "compareOperator cfg = ''gt'' \<or> compareOperator cfg = ''lt''"
      and nonzero: "countThreshold cfg \<noteq> 0"
      and sent: "sent_message (pipeline w cfg) = Some msg"
      and ok: "Err msg = None"
  shows "(results (main w cfg MessageFirst) = [(OK, entries_text w cfg (Count msg))]
            \<longleftrightarrow> (compareOperator cfg = ''gt'' \<and> sint (countThreshold cfg) \<le> sint (Count msg))
                \<or> (compareOperator cfg = ''lt'' \<and> sint (Count msg) \<le> sint (countThreshold cfg)))
       \<and> (results (main w cfg MessageFirst) = [(CRITICAL, entries_text w cfg (Count msg))]
            \<longleftrightarrow> (compareOperator cfg = ''gt'' \<and> sint (Count msg) < sint (countThreshold cfg))
                \<or> (compareOperator cfg = ''lt'' \<and> sint (countThreshold cfg) < sint (Count msg)))
       \<and> (results (main w cfg MessageFirst) = [(OK, entries_text w cfg (Count msg))]
            \<or> results (main w cfg MessageFirst) = [(CRITICAL, entries_text w cfg (Count msg))])
       \<and> (Count msg = countThreshold cfg
            \<longrightarrow> results (main w cfg MessageFirst) = [(OK, entries_text w cfg (Count msg))])"
proof -
  have run: "results (main w cfg MessageFirst) = results (on_message w cfg msg)"
    using valid nonzero sent
    by (auto simp: main_def results_append results_pipeline)
  from valid show ?thesis
  proof
    assume gt: "compareOperator cfg = ''gt''"
    show ?thesis
      unfolding run using gt ok by (auto simp: on_message_def)
  next
    assume lt: "compareOperator cfg = ''lt''"
    show ?thesis
      unfolding run using lt ok by (auto simp: on_message_def)
  qed
qed

text \<open>
  The specification's first scenario: threshold 100, operator \<open>gt\<close>, the service counts
  150 hits.
\<close>

theorem threshold_verdict_witness:
  "results (main (example_env (Response 200 ''200 OK'' example_body)) example_config MessageFirst)
     = [(OK, ''150 entries of '' @ [CHR 0x27] @ ''*'' @ [CHR 0x27]
               @ '' (150.00%) found in the past 5 minutes'')]"
proof -
  have v: "compareOperator example_config = ''gt'' \<or> compareOperator example_config = ''lt''"
    by (simp add: example_config_def)
  have n: "countThreshold example_config \<noteq> 0"
    by (simp add: example_config_def)
  have e: "Err \<lparr>Count = 150, Err = None\<rparr> = None"
    by simp
  have g: "compareOperator example_config = ''gt''
           \<and> sint (countThreshold example_config) \<le> sint (Count \<lparr>Count = 150, Err = None\<rparr>)"
    by (simp add: example_config_def)
  from threshold_verdict [OF v n example_sent e] g
  have "results (main (example_env (Response 200 ''200 OK'' example_body)) example_config
                   MessageFirst)
          = [(OK, entries_text (example_env (Response 200 ''200 OK'' example_body))
                    example_config (Count \<lparr>Count = 150, Err = None\<rparr>))]"
    by blast
  then show ?thesis
    by (simp add: example_entries_text)
qed

subsection \<open>The timeout\<close>






lemma timer_delay_exact:
  assumes "0 \<le> sint now" and "0 \<le> sint (t :: int64)"
      and "sint now + sint t * 1000000000 < 9223372036854775808"
  shows "int (timer_delay now (time_Second * t)) = sint t * 1000000000"
proof -
  have "sint (time_Second * t) = signed_take_bit 63 (1000000000 * sint t)"
    by (simp add: sint_word_ariths time_Second_def)
  also have "\<dots> = 1000000000 * sint t"
    using assms by (simp add: signed_take_bit_int_eq_self_iff)
  finally have d: "sint (time_Second * t) = 1000000000 * sint t" .
  have "sint (now + time_Second * t)
          = signed_take_bit 63 (sint now + sint (time_Second * t))"
    by (simp add: sint_word_ariths)
  also have "\<dots> = sint now + 1000000000 * sint t"
    using assms d by (simp add: signed_take_bit_int_eq_self_iff)
  finally have s: "sint (now + time_Second * t) = sint now + 1000000000 * sint t" .
  from assms d s show ?thesis
    by (simp add: timer_delay_def time_when_def Let_def)
qed





subsection \<open>The HTTP query client\<close>

text \<open>
  C7. \<open>esQueryPost\<close> posts exactly one request, with the URL and the content it is given.
  It succeeds if and only if the exchange returns no errors and a response whose status
  code is 200, and then it returns the body of the response as it is. A response with
  another status code gives the error \<open>HTTP response code: \<close> followed by the status
  line; errors of the transport give the error whose message is their descriptions
  joined by a comma and a space.
\<close>

theorem esQueryPost_outcome:
  "fst (esQueryPost w url content) = [HttpPost url content]
   \<and> ((\<exists>body. snd (esQueryPost w url content) = Inr body)
        \<longleftrightarrow> (\<exists>status body. gorequest_Post w url content = Response 200 status body))
   \<and> (\<forall>status body. gorequest_Post w url content = Response 200 status body
        \<longrightarrow> snd (esQueryPost w url content) = Inr body)
   \<and> (\<forall>code status body. gorequest_Post w url content = Response code status body \<and> code \<noteq> 200
        \<longrightarrow> snd (esQueryPost w url content) = Inl (Error (''HTTP response code: '' @ status)))
   \<and> (\<forall>errs. gorequest_Post w url content = TransportErrors errs
        \<longrightarrow> snd (esQueryPost w url content) = Inl (Error (strings_Join errs '', '')))"
  by (cases "gorequest_Post w url content") (auto simp: esQueryPost_def)

text \<open>A status 500, a status 200, and two errors of the transport.\<close>

theorem esQueryPost_outcome_witness:
  "snd (esQueryPost (example_env (Response 500 ''500 Internal Server Error'' [])) ''u'' ''c'')
     = Inl (Error ''HTTP response code: 500 Internal Server Error'')
   \<and> snd (esQueryPost (example_env (Response 200 ''200 OK'' example_body)) ''u'' ''c'')
     = Inr example_body
   \<and> snd (esQueryPost (example_env (TransportErrors [''dial tcp'', ''refused''])) ''u'' ''c'')
     = Inl (Error ''dial tcp, refused'')"
proof -
  have a: "gorequest_Post (example_env (Response 500 ''500 Internal Server Error'' [])) ''u'' ''c''
             = Response 500 ''500 Internal Server Error'' [] \<and> (500 :: go_int) \<noteq> 200"
    by (simp add: example_env_def)
  have b: "gorequest_Post (example_env (Response 200 ''200 OK'' example_body)) ''u'' ''c''
             = Response 200 ''200 OK'' example_body"
    by (simp add: example_env_def)
  have c: "gorequest_Post (example_env (TransportErrors [''dial tcp'', ''refused''])) ''u'' ''c''
             = TransportErrors [''dial tcp'', ''refused'']"
    by (simp add: example_env_def)
  from esQueryPost_outcome
         [of "example_env (Response 500 ''500 Internal Server Error'' [])" "''u''" "''c''"] a
  have 1: "snd (esQueryPost (example_env (Response 500 ''500 Internal Server Error'' []))
                  ''u'' ''c'')
     = Inl (Error (''HTTP response code: '' @ ''500 Internal Server Error''))"
    by blast
  from esQueryPost_outcome
         [of "example_env (Response 200 ''200 OK'' example_body)" "''u''" "''c''"] b
  have 2: "snd (esQueryPost (example_env (Response 200 ''200 OK'' example_body)) ''u'' ''c'')
     = Inr example_body"
    by blast
  from esQueryPost_outcome
         [of "example_env (TransportErrors [''dial tcp'', ''refused''])" "''u''" "''c''"] c
  have 3: "snd (esQueryPost (example_env (TransportErrors [''dial tcp'', ''refused'']))
                  ''u'' ''c'')
     = Inl (Error (strings_Join [''dial tcp'', ''refused''] '', ''))"
    by blast
  from 1 2 3 show ?thesis by simp
qed

subsection \<open>The request URL\<close>

lemma char_of_48: "char_of (48::int) = CHR ''0''"
  by (simp add: char_of_def)

lemma nested_div_1000: "(n::int) div 10 div 100 = n div 1000"
  using zdiv_zmult2_eq [of 100 n 10] by simp

lemma nested_div_100: "(n::int) div 10 div 10 = n div 100"
  using zdiv_zmult2_eq [of 10 n 10] by simp

lemma decimal_1: "0 \<le> n \<Longrightarrow> n < 10 \<Longrightarrow> decimal n = [digit n]"
  by (subst decimal.simps) (simp add: digit_def)

lemma decimal_2: "10 \<le> n \<Longrightarrow> n < 100 \<Longrightarrow> decimal n = [digit (n div 10), digit n]"
  by (subst decimal.simps) (simp add: decimal_1 digit_def)

lemma decimal_3:
  "100 \<le> n \<Longrightarrow> n < 1000 \<Longrightarrow> decimal n = [digit (n div 100), digit (n div 10), digit n]"
  by (subst decimal.simps) (simp add: decimal_2 digit_def nested_div_100)

lemma decimal_4:
  "1000 \<le> n \<Longrightarrow> n < 10000 \<Longrightarrow>
     decimal n = [digit (n div 1000), digit (n div 100), digit (n div 10), digit n]"
  by (subst decimal.simps) (simp add: decimal_3 digit_def nested_div_1000 nested_div_100)

lemma appendInt_2:
  assumes "0 \<le> n" "n < 100"
  shows "appendInt n 2 = [digit (n div 10), digit n]"
proof (cases "n < 10")
  case True
  with assms show ?thesis
    by (simp add: appendInt_def decimal_1 Let_def digit_def char_of_48 numeral_2_eq_2)
next
  case False
  with assms show ?thesis
    by (simp add: appendInt_def decimal_2 Let_def)
qed

lemma appendInt_4:
  assumes "0 \<le> n" "n < 10000"
  shows "appendInt n 4 = [digit (n div 1000), digit (n div 100), digit (n div 10), digit n]"
proof -
  consider "n < 10" | "10 \<le> n" "n < 100" | "100 \<le> n" "n < 1000" | "1000 \<le> n"
    by linarith
  then show ?thesis
  proof cases
    case 1
    with assms show ?thesis
      by (simp add: appendInt_def decimal_1 Let_def digit_def char_of_48 numeral_3_eq_3)
  next
    case 2
    with assms show ?thesis
      by (simp add: appendInt_def decimal_2 Let_def digit_def char_of_48 numeral_2_eq_2)
  next
    case 3
    with assms show ?thesis
      by (simp add: appendInt_def decimal_3 Let_def digit_def char_of_48)
  next
    case 4
    with assms show ?thesis
      by (simp add: appendInt_def decimal_4 Let_def)
  qed
qed

lemma time_Format_civil: "civil d \<Longrightarrow> time_Format d = yyyy_mm_dd d"
  by (simp add: civil_def time_Format_def yyyy_mm_dd_def appendInt_2 appendInt_4)

text \<open>
  C8. When the template renders, the one request of \<open>getQueryResultCount\<close> goes to the
  base URL followed by \<open>/\<close>, the index pattern, \<open>-\<close>, the date and \<open>/_search\<close>, and
  has the rendered template as its content. The date is the local date that the environment gives
  at the time of the request, printed in the layout \<open>2006.01.02\<close>; for a civil date of
  the years 0 to 9999 these are the ten characters \<open>YYYY.MM.DD\<close>, zero-padded.
\<close>

theorem request_url:
  assumes "getRenderedTemplate w ts q t = Inr body"
  shows "http_requests (getQueryResultCount w url ip ts q t)
           = [(url @ ''/'' @ ip @ ''-'' @ time_Format (time_Now_Local w) @ ''/_search'', body)]
       \<and> (civil (time_Now_Local w)
            \<longrightarrow> time_Format (time_Now_Local w) = yyyy_mm_dd (time_Now_Local w))"
  using assms
  by (auto simp: getQueryResultCount_def esQueryPost_def Let_def time_Format_civil
      split: sum.splits prod.splits option.splits)

text \<open>The default flags on 14 November 2023.\<close>

theorem request_url_witness:
  "http_requests (getQueryResultCount (example_env (Response 200 ''200 OK'' example_body))
       ''http://localhost:9200'' ''logstash-*'' templateSource ''*'' 1699999700)
     = [(''http://localhost:9200/logstash-*-2023.11.14/_search'',
         template_head @ ''*'' @ template_middle @ ''1699999700000'' @ template_tail)]"
proof -
  have r: "getRenderedTemplate (example_env (Response 200 ''200 OK'' example_body))
             templateSource ''*'' 1699999700
           = Inr (template_head @ ''*'' @ template_middle @ ''1699999700000'' @ template_tail)"
    by (rule example_rendered)
  have c: "civil (time_Now_Local (example_env (Response 200 ''200 OK'' example_body)))"
    by (simp add: civil_def example_env_def)
  have f: "yyyy_mm_dd (time_Now_Local (example_env (Response 200 ''200 OK'' example_body)))
             = ''2023.11.14''"
    by code_simp
  from request_url [OF r] c f show ?thesis
    by simp
qed

subsection \<open>The query template renderer\<close>

lemma execute_nodes_fill:
  "set (node_fields ns) \<subseteq> {''TimeFrom'', ''Query''} \<Longrightarrow>
     execute_nodes ns d = Some (fill_placeholders ns (strconv_FormatInt (TimeFrom d)) (Query d))"
  by (induction ns rule: node_fields.induct) (auto simp: fill_placeholders_def)

lemma sint_times_1000:
  "sint (T * 1000 :: int64) = sint T * 1000
     \<longleftrightarrow> - (2 ^ 63) \<le> sint T * 1000 \<and> sint T * 1000 < 2 ^ 63"
proof -
  have "sint (T * 1000 :: int64) = signed_take_bit 63 (sint T * 1000)"
    by (simp add: sint_word_ariths)
  then show ?thesis
    by (simp add: signed_take_bit_int_eq_self_iff)
qed

text \<open>
  C5, as stated, fails where the product leaves the range of \<open>int64\<close>: for the template
  \<open>{{ .TimeFrom }}\<close> and the time bound \<open>T = 9223372036854776\<close> seconds the rendered text
  is \<open>-9223372036854775616\<close>, while \<open>T * 1000\<close> is \<open>9223372036854776000\<close>.
\<close>

theorem getRenderedTemplate_wraps:
  "getRenderedTemplate (example_env (TransportErrors [])) ''{{ .TimeFrom }}'' ''*''
       9223372036854776 = Inr ''-9223372036854775616''
   \<and> decimal (9223372036854776 * 1000) = ''9223372036854776000''"
  by code_simp

text \<open>
  C5, amended. For every template source, query string and time bound \<open>T\<close>, the renderer
  executes the parsed template on the data whose \<open>Query\<close> is the query string and whose
  \<open>TimeFrom\<close> is the \<open>int64\<close> product \<open>T * 1000\<close>, and returns what the template engine
  returns, an error of parsing or executing included. On a template of text and field
  actions for \<open>TimeFrom\<close> and \<open>Query\<close> the rendered text is the template with every
  \<open>TimeFrom\<close> action replaced by the decimal numeral of that product and every \<open>Query\<close>
  action by the query string. The product is the number \<open>T * 1000\<close> of milliseconds
  exactly when that number lies within the range of \<open>int64\<close>; otherwise it has wrapped
  around.
\<close>

theorem getRenderedTemplate_substitutes:
  "getRenderedTemplate w src query T =
     (case template_Parse w src of
        Inl err \<Rightarrow> Inl err
      | Inr tmpl \<Rightarrow> tmpl \<lparr>TimeFrom = T * 1000, Query = query\<rparr>)
   \<and> (template_Parse w src = text_template e src \<and> field_template src = Some ns
        \<and> set (node_fields ns) \<subseteq> {''TimeFrom'', ''Query''}
      \<longrightarrow> getRenderedTemplate w src query T
            = Inr (fill_placeholders ns (strconv_FormatInt (T * 1000)) query))
   \<and> (sint (T * 1000) = sint T * 1000
        \<longleftrightarrow> - (2 ^ 63) \<le> sint T * 1000 \<and> sint T * 1000 < 2 ^ 63)"
proof (intro conjI impI)
  show "getRenderedTemplate w src query T =
     (case template_Parse w src of
        Inl err \<Rightarrow> Inl err
      | Inr tmpl \<Rightarrow> tmpl \<lparr>TimeFrom = T * 1000, Query = query\<rparr>)"
    by (simp add: getRenderedTemplate_def split: sum.splits)
next
  assume h: "template_Parse w src = text_template e src \<and> field_template src = Some ns
        \<and> set (node_fields ns) \<subseteq> {''TimeFrom'', ''Query''}"
  then show "getRenderedTemplate w src query T
            = Inr (fill_placeholders ns (strconv_FormatInt (T * 1000)) query)"
    by (simp add: getRenderedTemplate_def text_template_def execute_nodes_fill)
next
  show "sint (T * 1000) = sint T * 1000
        \<longleftrightarrow> - (2 ^ 63) \<le> sint T * 1000 \<and> sint T * 1000 < 2 ^ 63"
    by (rule sint_times_1000)
qed

text \<open>The program's template, the query \<open>*\<close> and the time bound 1700000000.\<close>

theorem getRenderedTemplate_substitutes_witness:
  "getRenderedTemplate (example_env (TransportErrors [])) templateSource ''*'' 1700000000
     = Inr (template_head @ ''*'' @ template_middle @ ''1700000000000'' @ template_tail)"
proof -
  have p: "template_Parse (example_env (TransportErrors [])) templateSource
             = text_template (Error ''template'') templateSource"
    by (simp add: example_env_def)
  have f: "set (node_fields [TextNode template_head, FieldNode ''Query'',
             TextNode template_middle, FieldNode ''TimeFrom'', TextNode template_tail])
           \<subseteq> {''TimeFrom'', ''Query''}"
    by simp
  have d: "strconv_FormatInt 1700000000000 = ''1700000000000''"
    by code_simp
  from getRenderedTemplate_substitutes
         [of "example_env (TransportErrors [])" templateSource "''*''" 1700000000
             "Error ''template''" "[TextNode template_head, FieldNode ''Query'',
             TextNode template_middle, FieldNode ''TimeFrom'', TextNode template_tail]"]
       p field_template_templateSource f
  have "getRenderedTemplate (example_env (TransportErrors [])) templateSource ''*'' 1700000000
          = Inr (fill_placeholders [TextNode template_head, FieldNode ''Query'',
                   TextNode template_middle, FieldNode ''TimeFrom'', TextNode template_tail]
                   (strconv_FormatInt (1700000000 * 1000)) ''*'')"
    by blast
  then show ?thesis
    by (simp add: fill_placeholders_def d)
qed

subsection \<open>The result parser\<close>

lemma saveError_idem: "saveError x (saveError x e) = saveError x e"
  by (simp add: saveError_def split: option.splits)

lemma total_values_append: "total_values (xs @ ys) = total_values xs @ total_values ys"
  by (induction xs rule: total_values.induct) (auto split: option.splits)

lemma last_last: "last (last (v # xs) # ys) = last (v # xs @ ys)"
  by (cases ys) auto

lemma members_named_Cons:
  "members_named name (m # ms) =
     (if findField [name] (fst m) \<noteq> None then snd m # members_named name ms
      else members_named name ms)"
  by (simp add: members_named_def)

lemma members_named_Nil: "members_named name [] = []"
  by (simp add: members_named_def)

lemma decode_int_spec:
  "decode_int t (v, e) =
     (last (v # total_values [t]),
      if total_mismatch t then saveError UnmarshalTypeError e else e)"
  by (cases t) (auto split: option.splits)

lemma decode_hits_member_step:
  "decode_hits_member m (h, e) =
     (if findField [''total''] (fst m) \<noteq> None
      then (h\<lparr>Total := last (Total h # total_values [snd m])\<rparr>,
            if total_mismatch (snd m) then saveError UnmarshalTypeError e else e)
      else (h, e))"
  by (simp add: decode_hits_member_def decode_int_spec split: option.splits)

lemma foldl_decode_hits_member:
  "foldl (\<lambda>st m. decode_hits_member m st) (h, e) ms =
     (h\<lparr>Total := last (Total h # total_values (members_named ''total'' ms))\<rparr>,
      if list_ex total_mismatch (members_named ''total'' ms)
      then saveError UnmarshalTypeError e else e)"
proof (induction ms arbitrary: h e)
  case Nil
  show ?case by (simp add: members_named_Nil)
next
  case (Cons m ms)
  show ?case
  proof (cases "findField [''total''] (fst m) \<noteq> None")
    case False
    then show ?thesis
      by (simp add: decode_hits_member_step members_named_Cons Cons.IH del: last.simps)
  next
    case True
    have tv: "total_values (snd m # members_named ''total'' ms)
                = total_values [snd m] @ total_values (members_named ''total'' ms)"
      using total_values_append [of "[snd m]" "members_named ''total'' ms"] by simp
    have "foldl (\<lambda>st m. decode_hits_member m st) (h, e) (m # ms)
            = foldl (\<lambda>st m. decode_hits_member m st)
                (h\<lparr>Total := last (Total h # total_values [snd m])\<rparr>,
                 if total_mismatch (snd m) then saveError UnmarshalTypeError e else e) ms"
      using True by (simp add: decode_hits_member_step del: last.simps)
    also have "\<dots> =
        (h\<lparr>Total := last (last (Total h # total_values [snd m])
                           # total_values (members_named ''total'' ms))\<rparr>,
         if list_ex total_mismatch (members_named ''total'' ms)
         then saveError UnmarshalTypeError
                (if total_mismatch (snd m) then saveError UnmarshalTypeError e else e)
         else (if total_mismatch (snd m) then saveError UnmarshalTypeError e else e))"
      by (simp add: Cons.IH del: last.simps)
    also have "\<dots> =
        (h\<lparr>Total := last (Total h # total_values (members_named ''total'' (m # ms)))\<rparr>,
         if list_ex total_mismatch (members_named ''total'' (m # ms))
         then saveError UnmarshalTypeError e else e)"
      using True
      by (simp add: members_named_Cons tv last_last saveError_idem
          del: last.simps total_values.simps)
    finally show ?thesis .
  qed
qed

lemma decode_hits_spec:
  "decode_hits j (h, e) =
     (h\<lparr>Total := last (Total h # hits_totals j)\<rparr>,
      if hits_mismatch j then saveError UnmarshalTypeError e else e)"
  by (cases j) (simp_all add: foldl_decode_hits_member hits_totals_def members_named_Nil)

lemma decode_QueryResult_member_step:
  "decode_QueryResult_member m (r, e) =
     (if findField [''hits''] (fst m) \<noteq> None
      then (r\<lparr>Hits := (Hits r)\<lparr>Total := last (Total (Hits r) # hits_totals (snd m))\<rparr>\<rparr>,
            if hits_mismatch (snd m) then saveError UnmarshalTypeError e else e)
      else (r, e))"
  by (simp add: decode_QueryResult_member_def decode_hits_spec split: option.splits)

lemma foldl_decode_QueryResult_member:
  "foldl (\<lambda>st m. decode_QueryResult_member m st) (r, e) ms =
     (r\<lparr>Hits := (Hits r)\<lparr>Total :=
          last (Total (Hits r) # concat (map hits_totals (members_named ''hits'' ms)))\<rparr>\<rparr>,
      if list_ex hits_mismatch (members_named ''hits'' ms)
      then saveError UnmarshalTypeError e else e)"
proof (induction ms arbitrary: r e)
  case Nil
  show ?case by (simp add: members_named_Nil)
next
  case (Cons m ms)
  show ?case
  proof (cases "findField [''hits''] (fst m) \<noteq> None")
    case False
    then show ?thesis
      by (simp add: decode_QueryResult_member_step members_named_Cons Cons.IH del: last.simps)
  next
    case True
    have "foldl (\<lambda>st m. decode_QueryResult_member m st) (r, e) (m # ms)
            = foldl (\<lambda>st m. decode_QueryResult_member m st)
                (r\<lparr>Hits := (Hits r)\<lparr>Total := last (Total (Hits r) # hits_totals (snd m))\<rparr>\<rparr>,
                 if hits_mismatch (snd m) then saveError UnmarshalTypeError e else e) ms"
      using True by (simp add: decode_QueryResult_member_step del: last.simps)
    also have "\<dots> =
        (r\<lparr>Hits := (Hits r)\<lparr>Total :=
            last (last (Total (Hits r) # hits_totals (snd m))
                  # concat (map hits_totals (members_named ''hits'' ms)))\<rparr>\<rparr>,
         if list_ex hits_mismatch (members_named ''hits'' ms)
         then saveError UnmarshalTypeError
                (if hits_mismatch (snd m) then saveError UnmarshalTypeError e else e)
         else (if hits_mismatch (snd m) then saveError UnmarshalTypeError e else e))"
      by (simp add: Cons.IH del: last.simps)
    also have "\<dots> =
        (r\<lparr>Hits := (Hits r)\<lparr>Total :=
            last (Total (Hits r)
                  # concat (map hits_totals (members_named ''hits'' (m # ms))))\<rparr>\<rparr>,
         if list_ex hits_mismatch (members_named ''hits'' (m # ms))
         then saveError UnmarshalTypeError e else e)"
      using True
      by (simp add: members_named_Cons last_last saveError_idem del: last.simps)
    finally show ?thesis .
  qed
qed

lemma decode_QueryResult_spec:
  "decode_QueryResult v (QueryResult_zero, None) =
     (\<lparr>Hits = \<lparr>Total = the_total v\<rparr>\<rparr>,
      if type_mismatch v then Some UnmarshalTypeError else None)"
  by (cases v)
     (simp_all add: foldl_decode_QueryResult_member QueryResult_zero_def the_total_def
        all_totals_def saveError_def members_named_Nil)

lemma parseResult_spec:
  "parseResult data =
     (case json_parse data of
        None \<Rightarrow> (QueryResult_zero, Some (Error ''JSON parse failed''))
      | Some v \<Rightarrow>
          (\<lparr>Hits = \<lparr>Total = the_total v\<rparr>\<rparr>,
           if type_mismatch v then Some (Error ''JSON parse failed'') else None))"
  by (simp add: parseResult_def json_Unmarshal_def decode_QueryResult_spec split: option.splits)

lemma no_total_no_values:
  "\<not> has_hits_total v \<Longrightarrow> all_totals v = []"
  by (auto simp: has_hits_total_def all_totals_def hits_totals_def list_ex_iff)

subsection \<open>The bound on the nesting depth\<close>

text \<open>
  A text that opens more arrays than the bound allows is rejected whatever follows, and
  the bound counts the object around them: \<open>{"a":[[]]}\<close> is three deep.
\<close>

lemma lex_run_open_arrays:
  "lex_run LStart (replicate n (CHR ''['') @ s)
     = map_option ((@) (replicate n TBeginArray)) (lex_run LStart s)"
  by (induction n)
     (simp_all add: lex_start_def isSpace_def option.map_comp o_def option.map_ident)

lemma lex_run_close_arrays:
  "lex_run LStart (replicate n (CHR '']'') @ s)
     = map_option ((@) (replicate n TEndArray)) (lex_run LStart s)"
  by (induction n)
     (simp_all add: lex_start_def isSpace_def option.map_comp o_def option.map_ident)

lemma parse_run_too_deep:
  assumes "is_value_mode m" and "int (length st) \<le> lim" and "lim < int (length st) + int n"
  shows "parse_run lim (st, m) (replicate n TBeginArray @ ts) = None"
  using assms
proof (induction n arbitrary: st m)
  case 0
  then show ?case by simp
next
  case (Suc n)
  show ?case
  proof (cases "int (length st) < lim")
    case True
    have "parse_run lim (ArrayFrame [] # st, BeginValueOrEmpty) (replicate n TBeginArray @ ts) = None"
      using Suc.prems True by (intro Suc.IH) simp_all
    with True Suc.prems(1) show ?thesis by simp
  next
    case False
    then show ?thesis by simp
  qed
qed

lemma parse_run_open_arrays:
  assumes "is_value_mode m" and "int (length st) + int n < lim"
  shows "parse_run lim (st, m) (replicate (Suc n) TBeginArray @ ts)
           = parse_run lim (replicate (Suc n) (ArrayFrame []) @ st, BeginValueOrEmpty) ts"
  using assms
proof (induction n arbitrary: st m)
  case 0
  then show ?case by simp
next
  case (Suc n)
  have "parse_run lim (ArrayFrame [] # st, BeginValueOrEmpty) (replicate (Suc n) TBeginArray @ ts)
          = parse_run lim (replicate (Suc n) (ArrayFrame []) @ ArrayFrame [] # st, BeginValueOrEmpty) ts"
    using Suc.prems by (intro Suc.IH) simp_all
  with Suc.prems show ?case
    by (simp add: replicate_app_Cons_same)
qed

lemma parse_run_close_arrays:
  assumes "m = BeginValueOrEmpty \<or> m = EndValue"
  shows "parse_run lim (ArrayFrame xs # replicate k (ArrayFrame []) @ st, m)
             (replicate (Suc k) TEndArray @ ts)
           = (case push_value (nested_arrays k (JArray xs)) st of
                None \<Rightarrow> None
              | Some s' \<Rightarrow> parse_run lim s' ts)"
  using assms
proof (induction k arbitrary: xs m)
  case 0
  then show ?case by (cases "push_value (JArray xs) st") auto
next
  case (Suc k)
  have "parse_run lim (ArrayFrame [JArray xs] # replicate k (ArrayFrame []) @ st, EndValue)
             (replicate (Suc k) TEndArray @ ts)
           = (case push_value (nested_arrays k (JArray [JArray xs])) st of
                None \<Rightarrow> None
              | Some s' \<Rightarrow> parse_run lim s' ts)"
    by (intro Suc.IH) simp
  with Suc.prems show ?case by auto
qed


lemma json_parse_too_deep:
  assumes "maxNestingDepth < int n"
  shows "json_parse (replicate n (CHR ''['') @ s) = None"
proof (cases "lex_run LStart s")
  case None
  then show ?thesis
    by (simp add: json_parse_def json_parse_within_def lex_run_open_arrays)
next
  case (Some ts)
  have "parse_run maxNestingDepth ([], BeginValue) (replicate n TBeginArray @ ts) = None"
    using assms by (intro parse_run_too_deep) (simp_all add: maxNestingDepth_def)
  with Some show ?thesis
    by (simp add: json_parse_def json_parse_within_def lex_run_open_arrays)
qed

lemma lex_run_member_a:
  \<open>lex_run LStart (''{"a":'' @ s)
     = map_option ((@) [TBeginObject, TString ''a'', TColon]) (lex_run LStart s)\<close>
proof -
  have "unquote ''a'' = ''a''"
    by code_simp
  then show ?thesis
    by (cases "lex_run LStart s")
       (simp_all add: lex_start_def isSpace_def byte_in_def option.map_comp o_def)
qed

lemma json_parse_member_arrays:
  \<open>json_parse (''{"a":'' @ replicate (Suc k) (CHR ''['') @ replicate (Suc k) (CHR '']'') @ ''}'')
     = (if int k + 2 \<le> maxNestingDepth
        then Some (JObject [(''a'', nested_arrays k (JArray []))]) else None)\<close>
proof -
  have l: \<open>lex_run LStart
             (''{"a":'' @ replicate (Suc k) (CHR ''['') @ replicate (Suc k) (CHR '']'') @ ''}'')
           = Some ([TBeginObject, TString ''a'', TColon] @ replicate (Suc k) TBeginArray
                     @ replicate (Suc k) TEndArray @ [TEndObject])\<close>
    unfolding lex_run_member_a lex_run_open_arrays lex_run_close_arrays
    by (simp add: lex_start_def isSpace_def)
  have p: "parse_run lim ([], BeginValue)
             ([TBeginObject, TString ''a'', TColon] @ toks)
           = (if 0 < lim then parse_run lim ([MemberFrame [] ''a''], BeginValue) toks else None)"
    for lim toks
    by simp
  show ?thesis
  proof (cases "int k + 2 \<le> maxNestingDepth")
    case True
    have o: "parse_run maxNestingDepth ([MemberFrame [] ''a''], BeginValue)
               (replicate (Suc k) TBeginArray @ replicate (Suc k) TEndArray @ [TEndObject])
             = parse_run maxNestingDepth
                 (replicate (Suc k) (ArrayFrame []) @ [MemberFrame [] ''a''], BeginValueOrEmpty)
                 (replicate (Suc k) TEndArray @ [TEndObject])"
      using True by (intro parse_run_open_arrays) simp_all
    have c: "parse_run maxNestingDepth
                 (ArrayFrame [] # replicate k (ArrayFrame []) @ [MemberFrame [] ''a''],
                  BeginValueOrEmpty)
                 (replicate (Suc k) TEndArray @ [TEndObject])
             = Some (JObject [(''a'', nested_arrays k (JArray []))])"
      by (subst parse_run_close_arrays) simp_all
    from True have "0 < maxNestingDepth" by simp
    with True l o c show ?thesis
      unfolding json_parse_def json_parse_within_def l option.case p
      by simp
  next
    case False
    have "parse_run maxNestingDepth ([MemberFrame [] ''a''], BeginValue)
               (replicate (Suc k) TBeginArray @ replicate (Suc k) TEndArray @ [TEndObject])
             = None"
      using False by (intro parse_run_too_deep) (simp_all add: maxNestingDepth_def)
    with False l show ?thesis
      unfolding json_parse_def json_parse_within_def l option.case p
      by simp
  qed
qed

lemma member_a_shape:
  "\<not> type_mismatch (JObject [(''a'', v)]) \<and> \<not> has_hits_total (JObject [(''a'', v)])"
proof -
  have "findField [''hits''] ''a'' = None"
    by code_simp
  then show ?thesis
    by (simp add: has_hits_total_def members_named_def)
qed

lemma json_parse_within_example:
  \<open>json_parse_within 2 ''[[]]'' = Some (JArray [JArray []])
   \<and> json_parse_within 2 ''[[[]]]'' = None
   \<and> json_parse_within 2 ''{"a":[]}'' = Some (JObject [(''a'', JArray [])])
   \<and> json_parse_within 2 ''{"a":[[]]}'' = None\<close>
  by code_simp

lemma parseResult_member_arrays:
  \<open>parseResult
     (''{"a":'' @ replicate (Suc k) (CHR ''['') @ replicate (Suc k) (CHR '']'') @ ''}'')
     = (QueryResult_zero,
        if k + 2 \<le> 10000 then None else Some (Error ''JSON parse failed''))\<close>
proof -
  have "the_total (JObject [(''a'', v)]) = 0" for v
    using member_a_shape [of v] by (simp add: the_total_def no_total_no_values)
  then show ?thesis
    unfolding parseResult_spec json_parse_member_arrays
    using member_a_shape
    by (simp add: maxNestingDepth_def QueryResult_zero_def)
qed

lemma type_mismatch_no_total:
  assumes "\<not> has_hits_total v"
  shows "type_mismatch v \<longleftrightarrow> \<not> structs_fit v"
proof -
  have h: "hits_mismatch h \<longleftrightarrow> \<not> object_or_null h"
    if "members_named ''total'' (object_members h) = []" for h
    using that by (cases h) simp_all
  have "list_ex hits_mismatch hs \<longleftrightarrow> \<not> list_all object_or_null hs"
    if "\<forall>h \<in> set hs. members_named ''total'' (object_members h) = []" for hs
    using that h by (auto simp: list_ex_iff list_all_iff)
  with assms show ?thesis
    by (cases v) (auto simp: structs_fit_def has_hits_total_def list_ex_iff members_named_Nil)
qed

subsection \<open>The errors of the result parser\<close>

text \<open>
  C2, as stated, fails on an absent field: \<open>{}\<close> is a well-formed JSON text with no
  \<open>hits.total\<close> field (and none that is not numeric), and the parser returns the zero
  result and no error.
\<close>

theorem parseResult_absent_field:
  "json_parse ''{}'' = Some (JObject []) \<and> \<not> has_hits_total (JObject [])
   \<and> \<not> non_numeric_total (JObject []) \<and> parseResult ''{}'' = (QueryResult_zero, None)"
  by code_simp

text \<open>
  C2, amended. For every input string the parser returns an error if and only if
  \<open>json.Unmarshal\<close> does not accept the string, because it is not a well-formed JSON text
  or because its arrays and objects are nested more than 10000 deep, or the string holds
  a value that cannot be stored where it stands: a top-level value or a \<open>hits\<close> member
  that is neither an object nor \<open>null\<close>, or a \<open>total\<close> member of a \<open>hits\<close> object that is
  neither \<open>null\<close> nor an integer numeral within the range of \<open>int64\<close>. The error is always
  the one with the message \<open>JSON parse failed\<close>. Otherwise the parser returns, without
  error, the value of the last \<open>total\<close> in the text, and the count 0 when no \<open>hits.total\<close>
  field is present: an absent field is not an error. The last part shows the bound at
  work: an object whose one member \<open>a\<close> holds \<open>k + 1\<close> arrays, one in the other, has no
  \<open>hits.total\<close> field; it gives the count 0 without error as long as it is at most 10000
  deep, and the error beyond.
\<close>

theorem parseResult_error_iff:
  \<open>(snd (parseResult data) = Some (Error ''JSON parse failed'')
      \<longleftrightarrow> json_parse data = None \<or> (\<exists>v. json_parse data = Some v \<and> type_mismatch v))
   \<and> (snd (parseResult data) = None
        \<or> snd (parseResult data) = Some (Error ''JSON parse failed''))
   \<and> (\<forall>v. json_parse data = Some v \<and> \<not> type_mismatch v
        \<longrightarrow> parseResult data = (\<lparr>Hits = \<lparr>Total = the_total v\<rparr>\<rparr>, None))
   \<and> (\<forall>v. json_parse data = Some v \<and> \<not> type_mismatch v \<and> \<not> has_hits_total v
        \<longrightarrow> parseResult data = (QueryResult_zero, None))
   \<and> (\<forall>n s. 10000 < n
        \<longrightarrow> parseResult (replicate n (CHR ''['') @ s)
              = (QueryResult_zero, Some (Error ''JSON parse failed'')))
   \<and> (\<forall>k. parseResult
             (''{"a":'' @ replicate (Suc k) (CHR ''['') @ replicate (Suc k) (CHR '']'') @ ''}'')
           = (QueryResult_zero,
              if k + 2 \<le> 10000 then None else Some (Error ''JSON parse failed'')))\<close>
proof -
  have a: "(snd (parseResult data) = Some (Error ''JSON parse failed'')
      \<longleftrightarrow> json_parse data = None \<or> (\<exists>v. json_parse data = Some v \<and> type_mismatch v))
   \<and> (snd (parseResult data) = None
        \<or> snd (parseResult data) = Some (Error ''JSON parse failed''))
   \<and> (\<forall>v. json_parse data = Some v \<and> \<not> type_mismatch v
        \<longrightarrow> parseResult data = (\<lparr>Hits = \<lparr>Total = the_total v\<rparr>\<rparr>, None))
   \<and> (\<forall>v. json_parse data = Some v \<and> \<not> type_mismatch v \<and> \<not> has_hits_total v
        \<longrightarrow> parseResult data = (QueryResult_zero, None))"
    by (cases "json_parse data")
       (auto simp: parseResult_spec the_total_def no_total_no_values QueryResult_zero_def)
  have b: "parseResult (replicate n (CHR ''['') @ s)
             = (QueryResult_zero, Some (Error ''JSON parse failed''))"
    if "10000 < n" for n s
    using that by (simp add: parseResult_spec json_parse_too_deep maxNestingDepth_def)
  from a b parseResult_member_arrays show ?thesis
    by blast
qed

text \<open>
  A response with 150 hits, a \<open>total\<close> that is a string, a text that breaks off, and
  texts that are 10001 deep.
\<close>

theorem parseResult_error_iff_witness:
  \<open>parseResult example_body = (\<lparr>Hits = \<lparr>Total = 150\<rparr>\<rparr>, None)
   \<and> snd (parseResult ''{"hits":{"total":"many"}}'') = Some (Error ''JSON parse failed'')
   \<and> snd (parseResult ''{"hits":'') = Some (Error ''JSON parse failed'')
   \<and> parseResult (replicate 10001 (CHR ''['') @ replicate 10001 (CHR '']''))
       = (QueryResult_zero, Some (Error ''JSON parse failed''))
   \<and> parseResult
        (''{"a":'' @ replicate 10000 (CHR ''['') @ replicate 10000 (CHR '']'') @ ''}'')
       = (QueryResult_zero, Some (Error ''JSON parse failed''))
   \<and> parseResult
        (''{"a":'' @ replicate 9999 (CHR ''['') @ replicate 9999 (CHR '']'') @ ''}'')
       = (QueryResult_zero, None)\<close>
proof -
  have a: \<open>json_parse example_body =
             Some (JObject [(''hits'', JObject [(''total'', JNumber ''150''),
                      (''max_score'', JNumber ''0.0''), (''hits'', JArray [])]),
                    (''timed_out'', JBool False)])\<close>
    by code_simp
  have a': \<open>\<not> type_mismatch (JObject [(''hits'', JObject [(''total'', JNumber ''150''),
                      (''max_score'', JNumber ''0.0''), (''hits'', JArray [])]),
                    (''timed_out'', JBool False)])\<close>
    by code_simp
  have a'': \<open>the_total (JObject [(''hits'', JObject [(''total'', JNumber ''150''),
                      (''max_score'', JNumber ''0.0''), (''hits'', JArray [])]),
                    (''timed_out'', JBool False)]) = 150\<close>
    by code_simp
  have b: \<open>json_parse ''{"hits":{"total":"many"}}''
             = Some (JObject [(''hits'', JObject [(''total'', JString ''many'')])])\<close>
    by code_simp
  have b': \<open>type_mismatch (JObject [(''hits'', JObject [(''total'', JString ''many'')])])\<close>
    by code_simp
  have c: \<open>json_parse ''{"hits":'' = None\<close>
    by code_simp
  from parseResult_error_iff [of example_body] a a' a''
  have 1: "parseResult example_body = (\<lparr>Hits = \<lparr>Total = 150\<rparr>\<rparr>, None)"
    by simp
  from parseResult_error_iff [of \<open>''{"hits":{"total":"many"}}''\<close>] b b'
  have 2: \<open>snd (parseResult ''{"hits":{"total":"many"}}'') = Some (Error ''JSON parse failed'')\<close>
    by blast
  from parseResult_error_iff [of \<open>''{"hits":''\<close>] c
  have 3: \<open>snd (parseResult ''{"hits":'') = Some (Error ''JSON parse failed'')\<close>
    by blast
  have "(10000 :: nat) < 10001"
    by simp
  with parseResult_error_iff [of data]
  have 4: \<open>parseResult (replicate 10001 (CHR ''['') @ replicate 10001 (CHR '']''))
             = (QueryResult_zero, Some (Error ''JSON parse failed''))\<close> for data
    by blast
  have k: "Suc 9999 = 10000" "Suc 9998 = 9999"
    by simp_all
  from parseResult_error_iff [of data]
  have \<open>parseResult
          (''{"a":'' @ replicate (Suc 9999) (CHR ''['') @ replicate (Suc 9999) (CHR '']'') @ ''}'')
        = (QueryResult_zero,
           if (9999 :: nat) + 2 \<le> 10000 then None else Some (Error ''JSON parse failed''))\<close>
    for data
    by blast
  then have 5: \<open>parseResult
        (''{"a":'' @ replicate 10000 (CHR ''['') @ replicate 10000 (CHR '']'') @ ''}'')
       = (QueryResult_zero, Some (Error ''JSON parse failed''))\<close>
    unfolding k by simp
  from parseResult_error_iff [of data]
  have \<open>parseResult
          (''{"a":'' @ replicate (Suc 9998) (CHR ''['') @ replicate (Suc 9998) (CHR '']'') @ ''}'')
        = (QueryResult_zero,
           if (9998 :: nat) + 2 \<le> 10000 then None else Some (Error ''JSON parse failed''))\<close>
    for data
    by blast
  then have 6: \<open>parseResult
        (''{"a":'' @ replicate 9999 (CHR ''['') @ replicate 9999 (CHR '']'') @ ''}'')
       = (QueryResult_zero, None)\<close>
    unfolding k by simp
  from 1 2 3 4 5 6 show ?thesis by blast
qed

text \<open>
  C10, as stated, fails on a well-formed JSON text that is not an object: \<open>[]\<close> has no
  \<open>hits.total\<close> field, and the parser returns the error.
\<close>

theorem parseResult_array_is_error:
  "json_parse ''[]'' = Some (JArray []) \<and> \<not> has_hits_total (JArray [])
   \<and> parseResult ''[]'' = (QueryResult_zero, Some (Error ''JSON parse failed''))"
  by code_simp

text \<open>
  C10, amended. For every input string that \<open>json.Unmarshal\<close> accepts (a well-formed JSON
  text whose arrays and objects are nested at most 10000 deep) and that has no
  \<open>hits.total\<close> field, the parser returns the hit count 0; it returns no error, so that
  the run goes on as a success with the count 0, if the top-level value and the \<open>hits\<close>
  members, if any, are objects or \<open>null\<close>, and it returns the error \<open>JSON parse failed\<close> if
  one of them is a value of another kind.
\<close>

theorem parseResult_missing_total:
  assumes "json_parse data = Some v"
      and "\<not> has_hits_total v"
  shows "parseResult data
           = (QueryResult_zero,
              if structs_fit v then None else Some (Error ''JSON parse failed''))"
  using assms type_mismatch_no_total [of v]
  by (simp add: parseResult_spec the_total_def no_total_no_values QueryResult_zero_def)

text \<open>
  A response whose \<open>hits\<close> object has no \<open>total\<close>, and one whose \<open>hits\<close> is a number.
\<close>

theorem parseResult_missing_total_witness:
  \<open>parseResult ''{"took":3,"hits":{"max_score":null}}'' = (QueryResult_zero, None)
   \<and> parseResult ''{"hits":3}'' = (QueryResult_zero, Some (Error ''JSON parse failed''))\<close>
proof -
  have a: \<open>json_parse ''{"took":3,"hits":{"max_score":null}}''
             = Some (JObject [(''took'', JNumber ''3''),
                              (''hits'', JObject [(''max_score'', JNull)])])\<close>
    by code_simp
  have b: \<open>\<not> has_hits_total
               (JObject [(''took'', JNumber ''3''), (''hits'', JObject [(''max_score'', JNull)])])\<close>
    by code_simp
  have c: \<open>structs_fit
             (JObject [(''took'', JNumber ''3''), (''hits'', JObject [(''max_score'', JNull)])])\<close>
    by code_simp
  have a': \<open>json_parse ''{"hits":3}'' = Some (JObject [(''hits'', JNumber ''3'')])\<close>
    by code_simp
  have b': \<open>\<not> has_hits_total (JObject [(''hits'', JNumber ''3'')])\<close>
    by code_simp
  have c': \<open>\<not> structs_fit (JObject [(''hits'', JNumber ''3'')])\<close>
    by code_simp
  from parseResult_missing_total [OF a b] c parseResult_missing_total [OF a' b'] c'
  show ?thesis
    by simp
qed

end
